theory Spec2Isabelle
  imports Complex_Main "HOL-Library.Sublist"
begin

section \<open>Text primitives\<close>

text \<open>
  Python strings are modelled as \<open>string\<close> over ASCII text. \<open>lower\<close> is
  \<^verbatim>\<open>str.lower()\<close> on the letters A to Z; every keyword the program searches for is
  ASCII. \<open>str_in w s\<close> is the Python test \<^verbatim>\<open>w in s\<close> on strings: \<open>w\<close> occurs in
  \<open>s\<close> as a contiguous substring.
\<close>

definition lower_char :: "char \<Rightarrow> char" where
  "lower_char c =
     (case map_of (zip ''ABCDEFGHIJKLMNOPQRSTUVWXYZ'' ''abcdefghijklmnopqrstuvwxyz'') c of
        Some d \<Rightarrow> d
      | None \<Rightarrow> c)"

definition upper_char :: "char \<Rightarrow> char" where
  "upper_char c =
     (case map_of (zip ''abcdefghijklmnopqrstuvwxyz'' ''ABCDEFGHIJKLMNOPQRSTUVWXYZ'') c of
        Some d \<Rightarrow> d
      | None \<Rightarrow> c)"

definition is_alpha :: "char \<Rightarrow> bool" where
  "is_alpha c \<longleftrightarrow>
     c \<in> set ''abcdefghijklmnopqrstuvwxyzABCDEFGHIJKLMNOPQRSTUVWXYZ''"

definition lower :: "string \<Rightarrow> string" where
  "lower s = map lower_char s"

text \<open>
  \<^verbatim>\<open>str.title()\<close>: a letter that follows a non-letter (or starts the text) is put in
  upper case, every other letter in lower case. The flag says whether the previous
  character was a letter.
\<close>

fun title_from :: "bool \<Rightarrow> string \<Rightarrow> string" where
  "title_from prev [] = []"
| "title_from prev (c # s) =
     (if is_alpha c
      then (if prev then lower_char c else upper_char c) # title_from True s
      else c # title_from False s)"

definition title :: "string \<Rightarrow> string" where
  "title s = title_from False s"

fun starts_with :: "string \<Rightarrow> string \<Rightarrow> bool" where
  "starts_with [] s = True"
| "starts_with (a # w) [] = False"
| "starts_with (a # w) (c # s) = (a = c \<and> starts_with w s)"

fun str_in :: "string \<Rightarrow> string \<Rightarrow> bool" where
  "str_in w [] = (w = [])"
| "str_in w (c # s) = (starts_with w (c # s) \<or> str_in w s)"

text \<open>\<^verbatim>\<open>any(word in text for word in words)\<close>\<close>

definition any_in :: "string list \<Rightarrow> string \<Rightarrow> bool" where
  "any_in words s = list_ex (\<lambda>w. str_in w s) words"

section \<open>Query-intent extraction\<close>

text \<open>
  \<^verbatim>\<open>SQLQueryGenerator._extract_query_metadata\<close> (src/sql_query_generator.py). The
  metadata dictionary is a record with one field per key.
\<close>

record metadata =
  query_type :: string
  location :: "string option"
  parameters :: "string list"
  depth_range :: "string option"
  time_constraint :: bool
  spatial_query :: bool

definition initial_metadata :: metadata where
  "initial_metadata =
     \<lparr> query_type = ''unknown'', location = None, parameters = [],
       depth_range = None, time_constraint = False, spatial_query = False \<rparr>"

definition detect_query_type :: "string \<Rightarrow> metadata \<Rightarrow> metadata" where
  "detect_query_type sql_lower m =
     (if str_in ''order by pressure_dbar'' sql_lower then m\<lparr>query_type := ''profile''\<rparr>
      else if str_in ''order by date_time'' sql_lower then m\<lparr>query_type := ''time_series''\<rparr>
      else if str_in ''st_dwithin'' sql_lower \<or> str_in ''st_distance'' sql_lower
        then m\<lparr>query_type := ''spatial'', spatial_query := True\<rparr>
      else if str_in ''float_id'' sql_lower then m\<lparr>query_type := ''float_specific''\<rparr>
      else m\<lparr>query_type := ''general''\<rparr>)"

definition detect_parameters :: "string \<Rightarrow> metadata \<Rightarrow> metadata" where
  "detect_parameters user_lower m =
     (let m1 = (if str_in ''temperature'' user_lower
                then m\<lparr>parameters := parameters m @ [''temperature'']\<rparr> else m);
          m2 = (if str_in ''salinity'' user_lower
                then m1\<lparr>parameters := parameters m1 @ [''salinity'']\<rparr> else m1);
          m3 = (if str_in ''pressure'' user_lower \<or> str_in ''depth'' user_lower
                then m2\<lparr>parameters := parameters m2 @ [''pressure'']\<rparr> else m2)
      in if parameters m3 = [] then m3\<lparr>parameters := [''temperature'']\<rparr> else m3)"

text \<open>
  \<^verbatim>\<open>for name in names: if name in user_lower: metadata["location"] = name.title(); break\<close>
\<close>

fun first_mention :: "string list \<Rightarrow> string \<Rightarrow> metadata \<Rightarrow> metadata" where
  "first_mention [] user_lower m = m"
| "first_mention (name # names) user_lower m =
     (if str_in name user_lower then m\<lparr>location := Some (title name)\<rparr>
      else first_mention names user_lower m)"

definition locations :: "string list" where
  "locations = [''mumbai'', ''chennai'', ''kolkata'', ''delhi'', ''bangalore'', ''goa'', ''kerala'']"

definition regions :: "string list" where
  "regions = [''arabian sea'', ''bay of bengal'', ''indian ocean'']"

definition detect_depth :: "string \<Rightarrow> metadata \<Rightarrow> metadata" where
  "detect_depth user_lower m =
     (if str_in ''surface'' user_lower then m\<lparr>depth_range := Some ''surface''\<rparr>
      else if str_in ''deep'' user_lower then m\<lparr>depth_range := Some ''deep''\<rparr>
      else if str_in ''profile'' user_lower then m\<lparr>depth_range := Some ''profile''\<rparr>
      else m)"

definition extract_query_metadata :: "string \<Rightarrow> string \<Rightarrow> metadata" where
  "extract_query_metadata sql_query user_query =
     (let sql_lower = lower sql_query;
          user_lower = lower user_query
      in detect_depth user_lower
           (first_mention regions user_lower
             (first_mention locations user_lower
               (detect_parameters user_lower
                 (detect_query_type sql_lower initial_metadata)))))"

text \<open>
  \<^verbatim>\<open>LightweightPlotGenerator.extract_location\<close>
  (src/backend/lightweight_plot_generator.py): the gazetteer is a dictionary from a
  place name to its keywords, scanned in insertion order; the first entry with a
  keyword in the lowercased prompt is returned title-cased.
\<close>

definition gazetteer :: "(string \<times> string list) list" where
  "gazetteer =
     [(''mumbai'', [''mumbai'', ''bombay'']),
      (''chennai'', [''chennai'', ''madras'']),
      (''kolkata'', [''kolkata'', ''calcutta'']),
      (''delhi'', [''delhi'', ''new delhi'']),
      (''bangalore'', [''bangalore'', ''bengaluru'']),
      (''goa'', [''goa'']),
      (''kerala'', [''kerala'', ''kochi'', ''cochin'']),
      (''gujarat'', [''gujarat'', ''ahmedabad'']),
      (''arabian sea'', [''arabian sea'', ''arabian'']),
      (''bay of bengal'', [''bay of bengal'', ''bengal bay'']),
      (''indian ocean'', [''indian ocean''])]"

fun scan_locations :: "(string \<times> string list) list \<Rightarrow> string \<Rightarrow> string option" where
  "scan_locations [] prompt_lower = None"
| "scan_locations ((place, keywords) # rest) prompt_lower =
     (if any_in keywords prompt_lower then Some (title place)
      else scan_locations rest prompt_lower)"

definition extract_location :: "string \<Rightarrow> string option" where
  "extract_location prompt = scan_locations gazetteer (lower prompt)"

section \<open>Tables and the data summary\<close>

text \<open>
  A DataFrame is a list of named columns. The cell type \<open>'c\<close> is left open. What pandas
  computes on a column (\<^verbatim>\<open>float(s.min())\<close>, \<^verbatim>\<open>s.dropna()\<close>, \<^verbatim>\<open>s.isna().all()\<close>,
  \<^verbatim>\<open>pd.to_datetime\<close>, \<^verbatim>\<open>strftime\<close>) is a parameter: each aggregate may raise
  (\<open>Inl\<close> carries the exception text) or return a float, which may be NaN.
\<close>

type_synonym 'c table = "(string \<times> 'c list) list"

datatype pyfloat = Float real | NaN

record 'c pandas =
  series_min :: "'c list \<Rightarrow> string + pyfloat"
  series_max :: "'c list \<Rightarrow> string + pyfloat"
  series_mean :: "'c list \<Rightarrow> string + pyfloat"
  dropna :: "'c list \<Rightarrow> 'c list"
  all_na :: "'c list \<Rightarrow> bool"
  date_min :: "'c list \<Rightarrow> string + string option"
  date_max :: "'c list \<Rightarrow> string + string option"
  to_datetime :: "'c list \<Rightarrow> 'c list"

definition n_rows :: "'c table \<Rightarrow> nat" where
  "n_rows df = (case df of [] \<Rightarrow> 0 | (name, col) # rest \<Rightarrow> length col)"

definition df_empty :: "'c table \<Rightarrow> bool" where
  "df_empty df \<longleftrightarrow> df = [] \<or> n_rows df = 0"

definition df_shape :: "'c table \<Rightarrow> nat \<times> nat" where
  "df_shape df = (n_rows df, length df)"

text \<open>\<^verbatim>\<open>df.rename(columns=mapping)\<close>: a column named in the mapping takes its new name.\<close>

definition rename_columns :: "(string \<times> string) list \<Rightarrow> 'c table \<Rightarrow> 'c table" where
  "rename_columns mapping df =
     map (\<lambda>(name, col). (case map_of mapping name of Some new \<Rightarrow> new | None \<Rightarrow> name, col)) df"

text \<open>\<^verbatim>\<open>df[name] = f(df[name])\<close> for a column that is present.\<close>

definition convert_column :: "string \<Rightarrow> ('c list \<Rightarrow> 'c list) \<Rightarrow> 'c table \<Rightarrow> 'c table" where
  "convert_column name f df = map (\<lambda>(n, col). (n, if n = name then f col else col)) df"

definition column_mapping :: "(string \<times> string) list" where
  "column_mapping =
     [(''float_id'', ''Float_ID''),
      (''latitude'', ''Latitude''),
      (''longitude'', ''Longitude''),
      (''pressure_dbar'', ''Pressure_dbar''),
      (''temperature_celsius'', ''Temperature_Celsius''),
      (''salinity_psu'', ''Salinity_PSU''),
      (''date_time'', ''Date_Time'')]"

text \<open>
  \<^verbatim>\<open>LightweightPlotGenerator._create_mock_data\<close>: seven columns of generated values
  under fixed names. The generated values are a parameter.
\<close>

record 'c mock_values =
  mock_float_id :: "'c list"
  mock_latitude :: "'c list"
  mock_longitude :: "'c list"
  mock_pressure :: "'c list"
  mock_temperature :: "'c list"
  mock_salinity :: "'c list"
  mock_date_time :: "'c list"

definition create_mock_data :: "'c mock_values \<Rightarrow> 'c table" where
  "create_mock_data v =
     [(''Float_ID'', mock_float_id v),
      (''Latitude'', mock_latitude v),
      (''Longitude'', mock_longitude v),
      (''Pressure_dbar'', mock_pressure v),
      (''Temperature_Celsius'', mock_temperature v),
      (''Salinity_PSU'', mock_salinity v),
      (''Date_Time'', mock_date_time v)]"

text \<open>
  \<^verbatim>\<open>LightweightPlotGenerator.fetch_data_from_db\<close>: \<open>run_query\<close> stands for the
  database round trip (connect, EXPLAIN, read); it raises or returns the raw table. On
  an exception the mock table is returned.
\<close>

definition fetch_data_from_db ::
  "'c pandas \<Rightarrow> (string \<Rightarrow> string + 'c table) \<Rightarrow> 'c mock_values \<Rightarrow> string \<Rightarrow> 'c table" where
  "fetch_data_from_db pd run_query mock sql_query =
     (case run_query sql_query of
        Inr raw \<Rightarrow>
          (let df = rename_columns column_mapping raw
           in if map_of df ''Date_Time'' \<noteq> None
              then convert_column ''Date_Time'' (to_datetime pd) df
              else df)
      | Inl error_msg \<Rightarrow> create_mock_data mock)"

record date_range =
  earliest :: string
  latest :: string

record geographic_bounds =
  north :: pyfloat
  south :: pyfloat
  east :: pyfloat
  west :: pyfloat

record depth_range_summary =
  surface :: pyfloat
  bottom :: pyfloat

record stat_range =
  range_min :: pyfloat
  range_max :: pyfloat
  range_mean :: pyfloat

text \<open>
  The five helpers of \<^verbatim>\<open>LightweightFloatChatPipeline\<close>. Each is
  \<^verbatim>\<open>try: if <column present>: return {...}  except: pass;  return <fallback>\<close>.
  The guarded part yields \<open>Inl\<close> when an aggregate raises, \<open>Inr None\<close> when the
  condition fails and \<open>Inr (Some r)\<close> when it returns \<open>r\<close>.
\<close>

definition or_unknown :: "string option \<Rightarrow> string" where
  "or_unknown d = (case d of Some text \<Rightarrow> text | None \<Rightarrow> ''Unknown'')"

definition date_range_guarded :: "'c pandas \<Rightarrow> 'c table \<Rightarrow> string + date_range option" where
  "date_range_guarded pd df =
     (case map_of df ''Date_Time'' of
        None \<Rightarrow> Inr None
      | Some col \<Rightarrow>
          if all_na pd col then Inr None
          else (case date_min pd col of
                  Inl e \<Rightarrow> Inl e
                | Inr lo \<Rightarrow>
                    (case date_max pd col of
                       Inl e \<Rightarrow> Inl e
                     | Inr hi \<Rightarrow>
                         Inr (Some \<lparr> earliest = or_unknown lo, latest = or_unknown hi \<rparr>))))"

definition get_date_range :: "'c pandas \<Rightarrow> 'c table \<Rightarrow> date_range" where
  "get_date_range pd df =
     (case date_range_guarded pd df of
        Inr (Some r) \<Rightarrow> r
      | _ \<Rightarrow> \<lparr> earliest = ''2024-01-01'', latest = ''2024-12-31'' \<rparr>)"

definition geographic_bounds_guarded ::
  "'c pandas \<Rightarrow> 'c table \<Rightarrow> string + geographic_bounds option" where
  "geographic_bounds_guarded pd df =
     (case (map_of df ''Latitude'', map_of df ''Longitude'') of
        (Some lat, Some lon) \<Rightarrow>
          (case series_max pd lat of Inl e \<Rightarrow> Inl e | Inr n \<Rightarrow>
          (case series_min pd lat of Inl e \<Rightarrow> Inl e | Inr s \<Rightarrow>
          (case series_max pd lon of Inl e \<Rightarrow> Inl e | Inr e' \<Rightarrow>
          (case series_min pd lon of Inl e \<Rightarrow> Inl e | Inr w \<Rightarrow>
             Inr (Some \<lparr> north = n, south = s, east = e', west = w \<rparr>)))))
      | _ \<Rightarrow> Inr None)"

definition get_geographic_bounds :: "'c pandas \<Rightarrow> 'c table \<Rightarrow> geographic_bounds" where
  "get_geographic_bounds pd df =
     (case geographic_bounds_guarded pd df of
        Inr (Some r) \<Rightarrow> r
      | _ \<Rightarrow> \<lparr> north = Float 20, south = Float 18, east = Float 74, west = Float 71 \<rparr>)"

definition depth_range_guarded ::
  "'c pandas \<Rightarrow> 'c table \<Rightarrow> string + depth_range_summary option" where
  "depth_range_guarded pd df =
     (case map_of df ''pressure_dbar'' of
        None \<Rightarrow> Inr None
      | Some col \<Rightarrow>
          (case series_min pd col of Inl e \<Rightarrow> Inl e | Inr lo \<Rightarrow>
          (case series_max pd col of Inl e \<Rightarrow> Inl e | Inr hi \<Rightarrow>
             Inr (Some \<lparr> surface = lo, bottom = hi \<rparr>))))"

definition get_depth_range :: "'c pandas \<Rightarrow> 'c table \<Rightarrow> depth_range_summary" where
  "get_depth_range pd df =
     (case depth_range_guarded pd df of
        Inr (Some r) \<Rightarrow> r
      | _ \<Rightarrow> \<lparr> surface = Float 0, bottom = Float 2000 \<rparr>)"

definition temp_range_guarded :: "'c pandas \<Rightarrow> 'c table \<Rightarrow> string + stat_range option" where
  "temp_range_guarded pd df =
     (case map_of df ''temperature_celsius'' of
        None \<Rightarrow> Inr None
      | Some col \<Rightarrow>
          (case series_min pd col of Inl e \<Rightarrow> Inl e | Inr lo \<Rightarrow>
          (case series_max pd col of Inl e \<Rightarrow> Inl e | Inr hi \<Rightarrow>
          (case series_mean pd col of Inl e \<Rightarrow> Inl e | Inr mid \<Rightarrow>
             Inr (Some \<lparr> range_min = lo, range_max = hi, range_mean = mid \<rparr>)))))"

definition get_temp_range :: "'c pandas \<Rightarrow> 'c table \<Rightarrow> stat_range" where
  "get_temp_range pd df =
     (case temp_range_guarded pd df of
        Inr (Some r) \<Rightarrow> r
      | _ \<Rightarrow> \<lparr> range_min = Float 2, range_max = Float 30, range_mean = Float 15 \<rparr>)"

definition salinity_range_guarded ::
  "'c pandas \<Rightarrow> 'c table \<Rightarrow> string + stat_range option" where
  "salinity_range_guarded pd df =
     (case map_of df ''salinity_psu'' of
        None \<Rightarrow> Inr None
      | Some col \<Rightarrow>
          (let valid_salinity = dropna pd col
           in if length valid_salinity > 0
              then (case series_min pd valid_salinity of Inl e \<Rightarrow> Inl e | Inr lo \<Rightarrow>
                   (case series_max pd valid_salinity of Inl e \<Rightarrow> Inl e | Inr hi \<Rightarrow>
                   (case series_mean pd valid_salinity of Inl e \<Rightarrow> Inl e | Inr mid \<Rightarrow>
                      Inr (Some \<lparr> range_min = lo, range_max = hi, range_mean = mid \<rparr>))))
              else Inr None))"

definition get_salinity_range :: "'c pandas \<Rightarrow> 'c table \<Rightarrow> stat_range" where
  "get_salinity_range pd df =
     (case salinity_range_guarded pd df of
        Inr (Some r) \<Rightarrow> r
      | _ \<Rightarrow> \<lparr> range_min = Float 33, range_max = Float 37, range_mean = Float 35 \<rparr>)"

record data_summary =
  data_shape :: "nat \<times> nat"
  total_records :: nat
  summary_date_range :: date_range
  summary_geographic_bounds :: geographic_bounds
  summary_depth_range :: depth_range_summary
  temp_range :: stat_range
  salinity_range :: stat_range

definition build_data_summary :: "'c pandas \<Rightarrow> 'c table \<Rightarrow> data_summary" where
  "build_data_summary pd df =
     \<lparr> data_shape = df_shape df,
       total_records = n_rows df,
       summary_date_range = get_date_range pd df,
       summary_geographic_bounds = get_geographic_bounds pd df,
       summary_depth_range = get_depth_range pd df,
       temp_range = get_temp_range pd df,
       salinity_range = get_salinity_range pd df \<rparr>"

section \<open>Plot classification\<close>

text \<open>
  \<^verbatim>\<open>LightweightPlotGenerator.classify_prompt\<close>
  (src/backend/lightweight_plot_generator.py). Scores are real numbers. A score
  dictionary that the code iterates over is a list of label and score in insertion
  order: \<open>dict_set\<close> is \<^verbatim>\<open>d[k] = v\<close> (an existing key keeps its place, a new key goes
  last), \<open>dict_get\<close> is \<^verbatim>\<open>d.get(k, default)\<close> and \<open>dict_item\<close> is \<^verbatim>\<open>d[k]\<close>, which
  raises KeyError on a missing key.
\<close>

type_synonym scores = "(string \<times> real) list"

fun dict_set :: "scores \<Rightarrow> string \<Rightarrow> real \<Rightarrow> scores" where
  "dict_set [] k v = [(k, v)]"
| "dict_set ((k', v') # d) k v =
     (if k' = k then (k, v) # d else (k', v') # dict_set d k v)"

definition dict_get :: "scores \<Rightarrow> string \<Rightarrow> real \<Rightarrow> real" where
  "dict_get d k dflt = (case map_of d k of Some v \<Rightarrow> v | None \<Rightarrow> dflt)"

definition dict_item :: "scores \<Rightarrow> string \<Rightarrow> string + real" where
  "dict_item d k = (case map_of d k of Some v \<Rightarrow> Inr v | None \<Rightarrow> Inl (''KeyError: '' @ k))"

definition plot_categories :: "string list" where
  "plot_categories = [''profile'', ''time_series'', ''map'', ''ts_diagram'', ''3d_scatter'']"

text \<open>
  The classifier output \<^verbatim>\<open>predictions\<close> is a parameter: a list of rows of numbers. For
  the label at position \<open>i\<close> the probability is the largest entry of row \<open>i\<close>
  (\<^verbatim>\<open>predictions[i].max()\<close>, which raises on an empty row), or 0.1 when there is no
  row \<open>i\<close>.
\<close>

definition row_max :: "real list \<Rightarrow> string + real" where
  "row_max row =
     (case row of
        [] \<Rightarrow> Inl ''ValueError: zero-size array''
      | x # xs \<Rightarrow> Inr (fold max xs x))"

definition probability :: "real list list \<Rightarrow> nat \<Rightarrow> string + real" where
  "probability predictions i =
     (if length predictions > i then row_max (predictions ! i) else Inr 0.1)"

fun ml_scores :: "real list list \<Rightarrow> nat \<Rightarrow> string list \<Rightarrow> scores \<Rightarrow> string + scores" where
  "ml_scores predictions i [] scores = Inr scores"
| "ml_scores predictions i (label # labels) scores =
     (case probability predictions i of
        Inl e \<Rightarrow> Inl e
      | Inr prob \<Rightarrow> ml_scores predictions (Suc i) labels (dict_set scores label prob))"

text \<open>
  \<^verbatim>\<open>intelligent_scores\<close> is a dictionary with five fixed keys, read and written by
  literal key only: a record. The six keyword groups are applied in the order of the
  source; the first five assign, the last one takes the maximum.
\<close>

record rule_scores =
  rule_profile :: real
  rule_time_series :: real
  rule_map :: real
  rule_ts_diagram :: real
  rule_3d_scatter :: real

definition no_rule_scores :: rule_scores where
  "no_rule_scores =
     \<lparr> rule_profile = 0, rule_time_series = 0, rule_map = 0, rule_ts_diagram = 0,
       rule_3d_scatter = 0 \<rparr>"

definition profile_rule :: "string \<Rightarrow> rule_scores \<Rightarrow> rule_scores" where
  "profile_rule prompt_lower r =
     (if any_in [''profile'', ''depth'', ''vertical'', ''temperature profile'',
                 ''salinity profile''] prompt_lower
      then r\<lparr>rule_profile := 0.9, rule_ts_diagram := 0.7, rule_3d_scatter := 0.6\<rparr>
      else r)"

definition time_series_rule :: "string \<Rightarrow> rule_scores \<Rightarrow> rule_scores" where
  "time_series_rule prompt_lower r =
     (if any_in [''time'', ''temporal'', ''over time'', ''series'', ''trend'', ''evolution'']
           prompt_lower
      then r\<lparr>rule_time_series := 0.9, rule_map := 0.6, rule_profile := 0.5\<rparr>
      else r)"

definition map_rule :: "string \<Rightarrow> rule_scores \<Rightarrow> rule_scores" where
  "map_rule prompt_lower r =
     (if any_in [''map'', ''geographic'', ''spatial'', ''location'', ''region'', ''area'',
                 ''mumbai'', ''chennai'', ''goa'', ''kerala''] prompt_lower
      then r\<lparr>rule_map := 0.9, rule_3d_scatter := 0.8, rule_profile := 0.6\<rparr>
      else r)"

definition ts_diagram_rule :: "string \<Rightarrow> rule_scores \<Rightarrow> rule_scores" where
  "ts_diagram_rule prompt_lower r =
     (if any_in [''salinity'', ''water mass'', ''ts'', ''t-s'', ''temperature.*salinity'']
           prompt_lower
      then r\<lparr>rule_ts_diagram := 0.9, rule_profile := 0.8, rule_3d_scatter := 0.6\<rparr>
      else r)"

definition scatter_rule :: "string \<Rightarrow> rule_scores \<Rightarrow> rule_scores" where
  "scatter_rule prompt_lower r =
     (if any_in [''3d'', ''three'', ''dimensional'', ''scatter'', ''visualization'',
                 ''interactive''] prompt_lower
      then r\<lparr>rule_3d_scatter := 0.9, rule_profile := 0.6, rule_map := 0.7\<rparr>
      else r)"

definition ocean_rule :: "string \<Rightarrow> rule_scores \<Rightarrow> rule_scores" where
  "ocean_rule prompt_lower r =
     (if any_in [''ocean'', ''water'', ''analysis'', ''data'', ''show me'', ''analyze'']
           prompt_lower
      then r\<lparr>rule_3d_scatter := max (rule_3d_scatter r) 0.7,
             rule_profile := max (rule_profile r) 0.6,
             rule_map := max (rule_map r) 0.6\<rparr>
      else r)"

definition intelligent_scores :: "string \<Rightarrow> rule_scores" where
  "intelligent_scores prompt_lower =
     ocean_rule prompt_lower
       (scatter_rule prompt_lower
         (ts_diagram_rule prompt_lower
           (map_rule prompt_lower
             (time_series_rule prompt_lower
               (profile_rule prompt_lower no_rule_scores)))))"

text \<open>\<^verbatim>\<open>intelligent_scores.get(plot_type, 0.0)\<close>\<close>

definition rule_get :: "rule_scores \<Rightarrow> string \<Rightarrow> real \<Rightarrow> real" where
  "rule_get r k dflt =
     (if k = ''profile'' then rule_profile r
      else if k = ''time_series'' then rule_time_series r
      else if k = ''map'' then rule_map r
      else if k = ''ts_diagram'' then rule_ts_diagram r
      else if k = ''3d_scatter'' then rule_3d_scatter r
      else dflt)"

definition combine_scores :: "rule_scores \<Rightarrow> scores \<Rightarrow> scores" where
  "combine_scores r ml =
     fold (\<lambda>plot_type enhanced.
             dict_set enhanced plot_type
               (max (rule_get r plot_type 0) (dict_get ml plot_type 0 * 0.8)))
       plot_categories []"

text \<open>The blended scores: the enhanced dictionary before the floor is applied.\<close>

definition blended_scores :: "real list list \<Rightarrow> string \<Rightarrow> string + scores" where
  "blended_scores predictions prompt =
     (case ml_scores predictions 0 plot_categories [] of
        Inl e \<Rightarrow> Inl e
      | Inr ml \<Rightarrow> Inr (combine_scores (intelligent_scores (lower prompt)) ml))"

text \<open>\<^verbatim>\<open>max(enhanced_scores.values())\<close>\<close>

definition max_value :: "scores \<Rightarrow> string + real" where
  "max_value d =
     (case map snd d of
        [] \<Rightarrow> Inl ''ValueError: max() arg is an empty sequence''
      | v # vs \<Rightarrow> Inr (fold max vs v))"

definition apply_floor :: "scores \<Rightarrow> real \<Rightarrow> scores" where
  "apply_floor enhanced max_score =
     (if max_score < 0.4
      then dict_set (dict_set (dict_set enhanced ''3d_scatter'' 0.8) ''profile'' 0.7) ''map'' 0.6
      else enhanced)"

definition floored_scores :: "real list list \<Rightarrow> string \<Rightarrow> string + scores" where
  "floored_scores predictions prompt =
     (case blended_scores predictions prompt of
        Inl e \<Rightarrow> Inl e
      | Inr enhanced \<Rightarrow>
          (case max_value enhanced of
             Inl e \<Rightarrow> Inl e
           | Inr max_score \<Rightarrow> Inr (apply_floor enhanced max_score)))"

definition above_threshold :: "scores \<Rightarrow> real \<Rightarrow> string list" where
  "above_threshold enhanced threshold =
     map fst (filter (\<lambda>(plot, score). score \<ge> threshold) enhanced)"

text \<open>
  \<^verbatim>\<open>sorted(items, key=lambda x: x[1], reverse=True)\<close>: descending by score, items of
  equal score in their original order.
\<close>

definition sorted_by_score :: "scores \<Rightarrow> scores" where
  "sorted_by_score items = sort_key (\<lambda>(plot, score). - score) items"

text \<open>
  The loop over \<^verbatim>\<open>sorted_plots[:3]\<close>: a label that is not chosen yet and scores above
  0.2 is appended, and its score raised to at least 0.5.
\<close>

fun add_complementary :: "scores \<Rightarrow> string list \<Rightarrow> scores \<Rightarrow> string + string list \<times> scores" where
  "add_complementary [] chosen enhanced = Inr (chosen, enhanced)"
| "add_complementary ((plot_type, score) # rest) chosen enhanced =
     (if plot_type \<notin> set chosen \<and> score > 0.2
      then (case dict_item enhanced plot_type of
              Inl e \<Rightarrow> Inl e
            | Inr current \<Rightarrow>
                add_complementary rest (chosen @ [plot_type])
                  (dict_set enhanced plot_type (max current 0.5)))
      else add_complementary rest chosen enhanced)"

text \<open>\<^verbatim>\<open>[(p, enhanced_scores[p]) for p in chosen_plots]\<close>\<close>

fun scores_of :: "scores \<Rightarrow> string list \<Rightarrow> string + scores" where
  "scores_of enhanced [] = Inr []"
| "scores_of enhanced (p # ps) =
     (case dict_item enhanced p of
        Inl e \<Rightarrow> Inl e
      | Inr v \<Rightarrow> (case scores_of enhanced ps of Inl e \<Rightarrow> Inl e | Inr rest \<Rightarrow> Inr ((p, v) # rest)))"

definition limit_plots :: "string list \<Rightarrow> scores \<Rightarrow> string + string list" where
  "limit_plots chosen enhanced =
     (if length chosen > 4
      then (case scores_of enhanced chosen of
              Inl e \<Rightarrow> Inl e
            | Inr sorted_chosen \<Rightarrow> Inr (map fst (take 4 (sorted_by_score sorted_chosen))))
      else Inr chosen)"

text \<open>The selection: everything after the floor, from the enhanced scores and the threshold.\<close>

definition select_plots :: "scores \<Rightarrow> real \<Rightarrow> string + string list \<times> scores" where
  "select_plots enhanced threshold =
     (let chosen = above_threshold enhanced threshold
      in case (if length chosen < 2
               then add_complementary (take 3 (sorted_by_score enhanced)) chosen enhanced
               else Inr (chosen, enhanced)) of
           Inl e \<Rightarrow> Inl e
         | Inr (chosen2, enhanced2) \<Rightarrow>
             (let (chosen3, enhanced3) =
                    (if chosen2 = []
                     then ([''3d_scatter'', ''profile''],
                           dict_set (dict_set enhanced2 ''3d_scatter'' 0.8) ''profile'' 0.7)
                     else (chosen2, enhanced2))
              in case limit_plots chosen3 enhanced3 of
                   Inl e \<Rightarrow> Inl e
                 | Inr chosen4 \<Rightarrow> Inr (chosen4, enhanced3)))"

definition fallback_classification :: "string list \<times> scores" where
  "fallback_classification =
     ([''3d_scatter'', ''profile'', ''map''],
      [(''3d_scatter'', 0.8), (''profile'', 0.7), (''map'', 0.6), (''ts_diagram'', 0.4),
       (''time_series'', 0.3)])"

text \<open>
  \<open>predict_proba\<close> stands for vectorizing the prompt and asking the classifier; it
  raises or returns the predictions. Any exception of the \<^verbatim>\<open>try\<close> block gives the
  fallback classification.
\<close>

definition classify_prompt ::
  "(string \<Rightarrow> string + real list list) \<Rightarrow> string \<Rightarrow> real \<Rightarrow> string list \<times> scores" where
  "classify_prompt predict_proba prompt threshold =
     (case (case predict_proba prompt of
              Inl e \<Rightarrow> Inl e
            | Inr predictions \<Rightarrow>
                (case floored_scores predictions prompt of
                   Inl e \<Rightarrow> Inl e
                 | Inr enhanced \<Rightarrow> select_plots enhanced threshold)) of
        Inr result \<Rightarrow> result
      | Inl e \<Rightarrow> fallback_classification)"

text \<open>
  The selection as a function of the enhanced scores \<open>E\<close> (after the floor) and the
  threshold, with the loop written as a filter. \<open>complementary E n\<close> are the labels
  the loop over the three highest-scoring items appends to the chosen labels \<open>n\<close>:
  those not in \<open>n\<close> with a score above 0.2. \<open>finish_selection\<close> puts the forced
  pair in place of an empty selection and cuts a selection of more than four labels to
  the four highest-scoring ones.
\<close>

definition complementary :: "scores \<Rightarrow> string list \<Rightarrow> string list" where
  "complementary E n =
     map fst (filter (\<lambda>(p, s). p \<notin> set n \<and> s > 0.2) (take 3 (sorted_by_score E)))"

definition finish_selection :: "scores \<Rightarrow> string list \<Rightarrow> string list" where
  "finish_selection E sel =
     (let sel' = (if sel = [] then [''3d_scatter'', ''profile''] else sel)
      in if length sel' > 4 then map fst (take 4 (sorted_by_score E)) else sel')"

definition selection_of :: "scores \<Rightarrow> real \<Rightarrow> string list" where
  "selection_of E thr =
     (let n = above_threshold E thr
      in finish_selection E (if length n < 2 then n @ complementary E n else n))"

text \<open>
  \<^verbatim>\<open>predictions = self.classifier.predict_proba(X)[0]\<close> is the output for the first
  label only: one row, the probabilities of its two classes, which sum to 1. The other
  labels then get the default 0.1. The classifier of the examples gives even odds.
\<close>

definition even_odds :: "string \<Rightarrow> string + real list list" where
  "even_odds prompt = Inr [[0.5, 0.5]]"

text \<open>Rule scores that all lie between 0 and 1.\<close>

definition unit_rule_scores :: "rule_scores \<Rightarrow> bool" where
  "unit_rule_scores r \<longleftrightarrow>
     0 \<le> rule_profile r \<and> rule_profile r \<le> 1
     \<and> 0 \<le> rule_time_series r \<and> rule_time_series r \<le> 1
     \<and> 0 \<le> rule_map r \<and> rule_map r \<le> 1
     \<and> 0 \<le> rule_ts_diagram r \<and> rule_ts_diagram r \<le> 1
     \<and> 0 \<le> rule_3d_scatter r \<and> rule_3d_scatter r \<le> 1"

section \<open>The pipeline\<close>

text \<open>
  \<^verbatim>\<open>LightweightFloatChatPipeline\<close> (src/lightweight_pipeline.py). Its collaborators
  are parameters: each call either raises (\<open>Inl\<close> with the exception text) or returns.
  \<open>sql_generator\<close> and \<open>chatbot\<close> are \<open>None\<close> when the pipeline runs in fallback
  mode. \<open>'m\<close> is the metadata the query generator returns.
\<close>

datatype 'm sql_meta = From_generator 'm | Pipeline_fallback

record plot =
  plot_type :: string
  description :: string
  saved_file :: "string option"
  saved_files_of_plot :: "string list option"

text \<open>
  The dictionary returned by \<^verbatim>\<open>generate_plots_from_data\<close>, with the keys the pipeline
  reads; a key may be missing.
\<close>

record plot_result =
  pr_success :: "bool option"
  pr_error :: "string option"
  pr_plots :: "plot list option"
  pr_classification_scores :: "(string \<times> real) list option"
  pr_chosen_plots :: "string list option"
  pr_all_saved_files :: "string list option"

text \<open>
  The message templates of the pipeline, one constructor per f-string, with the values
  it interpolates. \<open>Chatbot_text\<close> is what the chatbot returned.
\<close>

datatype narrative =
    Chatbot_text string
  | Fallback_profile nat
  | Fallback_mumbai nat
  | Fallback_general nat
  | No_data_message string
  | Error_message string

datatype summary = Records_only nat | Summary data_summary

record technical_details =
  sql_query :: string
  processing_time_seconds :: real
  td_data_shape :: "nat \<times> nat"
  system_type :: string

record 'm response =
  success :: bool
  user_query :: string
  chat_response :: narrative
  plots :: "plot list"
  saved_files :: "string list option"
  plot_metadata :: "((string \<times> real) list \<times> string list) option"
  response_summary :: "summary option"
  sql_metadata :: "'m sql_meta option"
  technical :: "technical_details option"
  error :: "string option"
  suggestions :: "string list"
  timestamp :: "string option"

record ('c, 'm) collaborators =
  sql_generator :: "(string \<Rightarrow> string + string \<times> 'm) option"
  fetch_data :: "string \<Rightarrow> string + 'c table"
  generate_plots :: "'c table \<Rightarrow> string \<Rightarrow> string + plot_result"
  chatbot :: "(string \<Rightarrow> 'm sql_meta \<Rightarrow> data_summary \<Rightarrow> string + string) option"
  pandas_lib :: "'c pandas"
  start_time :: real
  end_time :: real
  time_stamp :: string

text \<open>The progress lines the pipeline prints, in order.\<close>

datatype log_line =
    Processing_query string
  | Step1_generating
  | Step1_fallback
  | Generated_sql string
  | Step2_fetching
  | Retrieved nat
  | Step3_visualizing
  | Plot_generation_failed string
  | Step4_responding
  | Processed real
  | Pipeline_error string

definition generate_fallback_response :: "string \<Rightarrow> data_summary \<Rightarrow> narrative" where
  "generate_fallback_response q summ =
     (let query_lower = lower q
      in if str_in ''profile'' query_lower then Fallback_profile (total_records summ)
         else if str_in ''mumbai'' query_lower then Fallback_mumbai (total_records summ)
         else Fallback_general (total_records summ))"

definition handle_no_data_response :: "string \<Rightarrow> 'm sql_meta \<Rightarrow> 'm response" where
  "handle_no_data_response q meta =
     \<lparr> success = False,
       user_query = q,
       chat_response = No_data_message q,
       plots = [],
       saved_files = None,
       plot_metadata = None,
       response_summary = Some (Records_only 0),
       sql_metadata = Some meta,
       technical = None,
       error = None,
       suggestions =
         [''Show available data regions'',
          ''Temperature data near major cities'',
          ''Recent ocean measurements''],
       timestamp = None \<rparr>"

definition handle_error_response :: "string \<Rightarrow> string \<Rightarrow> 'm response" where
  "handle_error_response q err =
     \<lparr> success = False,
       user_query = q,
       chat_response = Error_message q,
       plots = [],
       saved_files = None,
       plot_metadata = None,
       response_summary = None,
       sql_metadata = None,
       technical = None,
       error = Some err,
       suggestions =
         [''Use simpler query terms'',
          ''Try location-based queries'',
          ''Ask for specific plot types''],
       timestamp = None \<rparr>"

text \<open>
  \<^verbatim>\<open>for plot in plot_result["plots"]\<close>: a plot contributes its \<^verbatim>\<open>saved_file\<close>, or
  else its \<^verbatim>\<open>saved_files\<close>.
\<close>

fun collect_saved_files :: "plot list \<Rightarrow> string list" where
  "collect_saved_files [] = []"
| "collect_saved_files (p # ps) =
     (case saved_file p of
        Some f \<Rightarrow> [f]
      | None \<Rightarrow> (case saved_files_of_plot p of Some fs \<Rightarrow> fs | None \<Rightarrow> []))
     @ collect_saved_files ps"

text \<open>
  \<^verbatim>\<open>_package_complete_response\<close>. Reading a missing key of \<open>plot_result\<close> raises
  KeyError.
\<close>

definition package_complete_response ::
  "string \<Rightarrow> string \<Rightarrow> 'm sql_meta \<Rightarrow> data_summary \<Rightarrow> plot_result \<Rightarrow> narrative \<Rightarrow> real
     \<Rightarrow> string \<Rightarrow> string + 'm response" where
  "package_complete_response q sql meta summ pr chat processing_time stamp =
     (case pr_success pr of
        None \<Rightarrow> Inl ''KeyError: success''
      | Some ok \<Rightarrow>
          (let files =
                 (if ok
                  then (case pr_all_saved_files pr of
                          Some fs \<Rightarrow> fs
                        | None \<Rightarrow>
                            (case pr_plots pr of
                               Some ps \<Rightarrow> collect_saved_files ps
                             | None \<Rightarrow> []))
                  else [])
           in case (if ok then (case pr_plots pr of
                                  Some ps \<Rightarrow> Inr ps
                                | None \<Rightarrow> Inl ''KeyError: plots'')
                    else Inr []) of
                Inl e \<Rightarrow> Inl e
              | Inr shown \<Rightarrow>
                  Inr \<lparr> success = True,
                        user_query = q,
                        chat_response = chat,
                        plots = shown,
                        saved_files = Some files,
                        plot_metadata =
                          Some (case pr_classification_scores pr of Some sc \<Rightarrow> sc | None \<Rightarrow> [],
                                case pr_chosen_plots pr of Some ch \<Rightarrow> ch | None \<Rightarrow> []),
                        response_summary = Some (Summary summ),
                        sql_metadata = Some meta,
                        technical =
                          Some \<lparr> sql_query = sql,
                                 processing_time_seconds = processing_time,
                                 td_data_shape = data_shape summ,
                                 system_type = ''lightweight (scikit-learn)'' \<rparr>,
                        error = None,
                        suggestions =
                          [''How does this compare to other regions?'',
                           ''Can you show different visualizations?'',
                           ''What drives these ocean patterns?''],
                        timestamp = Some stamp \<rparr>))"

text \<open>Step 1: the generated query, or the fixed query when there is no generator.\<close>

definition generate_step ::
  "('c, 'm) collaborators \<Rightarrow> string \<Rightarrow> log_line list \<times> (string + string \<times> 'm sql_meta)" where
  "generate_step env q =
     (case sql_generator env of
        Some generate_sql_query \<Rightarrow>
          (case generate_sql_query q of
             Inl e \<Rightarrow> ([Step1_generating], Inl e)
           | Inr (sql, m) \<Rightarrow>
               ([Step1_generating, Generated_sql (take 100 sql)], Inr (sql, From_generator m)))
      | None \<Rightarrow>
          ([Step1_fallback], Inr (''SELECT * FROM argo_floats LIMIT 1000;'', Pipeline_fallback)))"

text \<open>Step 3, with its own handler: a raised exception becomes a failed plot result.\<close>

definition failed_plot_result :: "string \<Rightarrow> plot_result" where
  "failed_plot_result plot_error =
     \<lparr> pr_success = Some False,
       pr_error = Some plot_error,
       pr_plots = Some [],
       pr_classification_scores = Some [],
       pr_chosen_plots = Some [],
       pr_all_saved_files = None \<rparr>"

definition visualize_step ::
  "('c, 'm) collaborators \<Rightarrow> 'c table \<Rightarrow> string \<Rightarrow> log_line list \<times> plot_result" where
  "visualize_step env df q =
     (case generate_plots env df q of
        Inr pr \<Rightarrow> ([Step3_visualizing], pr)
      | Inl plot_error \<Rightarrow>
          ([Step3_visualizing, Plot_generation_failed plot_error],
           failed_plot_result plot_error))"

text \<open>Step 4: the chatbot, or the template text when there is no chatbot.\<close>

definition narrate_step ::
  "('c, 'm) collaborators \<Rightarrow> string \<Rightarrow> 'm sql_meta \<Rightarrow> data_summary \<Rightarrow> string + narrative" where
  "narrate_step env q meta summ =
     (case chatbot env of
        Some generate_response \<Rightarrow>
          (case generate_response q meta summ of
             Inl e \<Rightarrow> Inl e
           | Inr reply \<Rightarrow> Inr (Chatbot_text reply))
      | None \<Rightarrow> Inr (generate_fallback_response q summ))"

text \<open>The body of the \<^verbatim>\<open>try\<close> block of \<^verbatim>\<open>process_user_query\<close>.\<close>

definition pipeline_body ::
  "('c, 'm) collaborators \<Rightarrow> string \<Rightarrow> log_line list \<times> (string + 'm response)" where
  "pipeline_body env q =
     (case generate_step env q of
        (log1, Inl e) \<Rightarrow> (log1, Inl e)
      | (log1, Inr (sql, meta)) \<Rightarrow>
          (case fetch_data env sql of
             Inl e \<Rightarrow> (log1 @ [Step2_fetching], Inl e)
           | Inr df \<Rightarrow>
               if df_empty df
               then (log1 @ [Step2_fetching], Inr (handle_no_data_response q meta))
               else
                 (let (log3, pr) = visualize_step env df q;
                      summ = build_data_summary (pandas_lib env) df;
                      log4 = log1 @ [Step2_fetching, Retrieved (n_rows df)] @ log3
                               @ [Step4_responding]
                  in case narrate_step env q meta summ of
                       Inl e \<Rightarrow> (log4, Inl e)
                     | Inr chat \<Rightarrow>
                         (let processing_time = end_time env - start_time env
                          in (log4 @ [Processed processing_time],
                              package_complete_response q sql meta summ pr chat
                                processing_time (time_stamp env))))))"

text \<open>
  \<^verbatim>\<open>process_user_query\<close> from the \<^verbatim>\<open>try\<close> on: the body under \<^verbatim>\<open>try\<close>, and the
  \<^verbatim>\<open>except Exception\<close> handler that returns the error response. The printed lines
  are kept as a trace, the line printed before \<^verbatim>\<open>try\<close> first.
\<close>

definition process_user_query ::
  "('c, 'm) collaborators \<Rightarrow> string \<Rightarrow> log_line list \<times> (string + 'm response)" where
  "process_user_query env q =
     (case pipeline_body env q of
        (printed, Inr r) \<Rightarrow> (Processing_query q # printed, Inr r)
      | (printed, Inl e) \<Rightarrow>
          (Processing_query q # printed @ [Pipeline_error e],
           Inr (handle_error_response q e)))"

text \<open>
  The statement before the \<^verbatim>\<open>try\<close> block is a \<^verbatim>\<open>print\<close> of a line that holds
  \<^verbatim>\<open>user_query\<close>: it writes the query text to the console, and the console encodes it.
  A Python \<^verbatim>\<open>str\<close> may hold a lone surrogate, a code point from U+D800 to U+DFFF
  (\<^verbatim>\<open>json.loads\<close> returns one for an escaped U+D800, and the API server passes the
  message of the request on as it is); the encoder refuses it and \<^verbatim>\<open>print\<close> raises
  \<^verbatim>\<open>UnicodeEncodeError\<close>. The console is taken to be a UTF-8 console, which encodes
  every other code point. For the print a text is read as the list of its UTF-8 bytes,
  with a lone surrogate written as three bytes, ED and then a byte from A0 on; no other
  code point produces this pair.
\<close>

fun lone_surrogate :: "string \<Rightarrow> bool" where
  "lone_surrogate (a # b # s) =
     ((a = CHR 0xED \<and> (0xA0 :: nat) \<le> of_char b) \<or> lone_surrogate (b # s))"
| "lone_surrogate s = False"

definition print_text :: "string \<Rightarrow> string + unit" where
  "print_text s =
     (if lone_surrogate s then Inl ''UnicodeEncodeError: surrogates not allowed''
      else Inr ())"

text \<open>
  A call of \<^verbatim>\<open>process_user_query\<close> as the caller sees it: the print of the query text,
  outside the \<^verbatim>\<open>try\<close> block, then the \<^verbatim>\<open>try\<close> block with its handler. \<open>Inl\<close> is an
  exception that reaches the caller.
\<close>

definition call_process_user_query ::
  "('c, 'm) collaborators \<Rightarrow> string \<Rightarrow> log_line list \<times> (string + 'm response)" where
  "call_process_user_query env q =
     (case print_text q of
        Inl e \<Rightarrow> ([], Inl e)
      | Inr u \<Rightarrow> process_user_query env q)"

section \<open>Example collaborators\<close>

text \<open>
  Two concrete sets of collaborators, both in fallback mode (no query generator, no
  chatbot): a database call that returns a table with no rows, and a renderer that
  raises.
\<close>

definition no_pandas :: "real pandas" where
  "no_pandas =
     \<lparr> series_min = (\<lambda>c. Inr NaN), series_max = (\<lambda>c. Inr NaN),
       series_mean = (\<lambda>c. Inr NaN), dropna = (\<lambda>c. c), all_na = (\<lambda>c. True),
       date_min = (\<lambda>c. Inr None), date_max = (\<lambda>c. Inr None),
       to_datetime = (\<lambda>c. c) \<rparr>"

definition empty_fetch :: "(real, metadata) collaborators" where
  "empty_fetch =
     \<lparr> sql_generator = None,
       fetch_data = (\<lambda>sql. Inr [(''Float_ID'', [])]),
       generate_plots = (\<lambda>df q. Inl ''not called''),
       chatbot = None,
       pandas_lib = no_pandas,
       start_time = 0, end_time = 1, time_stamp = ''2024-01-01 00:00:00'' \<rparr>"

definition broken_renderer :: "(real, metadata) collaborators" where
  "broken_renderer =
     \<lparr> sql_generator = None,
       fetch_data = (\<lambda>sql. Inr [(''Float_ID'', [5905529])]),
       generate_plots = (\<lambda>df q. Inl ''kaleido is not installed''),
       chatbot = None,
       pandas_lib = no_pandas,
       start_time = 0, end_time = 1, time_stamp = ''2024-01-01 00:00:00'' \<rparr>"

section \<open>Facts about the text primitives\<close>

lemma starts_with_iff: "starts_with w s \<longleftrightarrow> prefix w s"
  by (induction w s rule: starts_with.induct) auto

lemma str_in_iff: "str_in w s \<longleftrightarrow> sublist w s"
proof (induction s)
  case Nil
  show ?case by simp
next
  case (Cons c s)
  show ?case
    by (simp add: Cons starts_with_iff sublist_Cons_right)
qed

section \<open>Metadata fields kept by later steps\<close>

lemma first_mention_keeps [simp]:
  "query_type (first_mention names u m) = query_type m"
  "spatial_query (first_mention names u m) = spatial_query m"
  by (induction names) auto

lemma first_mention_location:
  "location (first_mention names u m) =
     (case find (\<lambda>name. str_in name u) names of
        Some name \<Rightarrow> Some (title name)
      | None \<Rightarrow> location m)"
  by (induction names) auto

lemma detect_depth_keeps [simp]:
  "query_type (detect_depth u m) = query_type m"
  "spatial_query (detect_depth u m) = spatial_query m"
  "location (detect_depth u m) = location m"
  by (simp_all add: detect_depth_def)

lemma detect_parameters_keeps [simp]:
  "query_type (detect_parameters u m) = query_type m"
  "spatial_query (detect_parameters u m) = spatial_query m"
  "location (detect_parameters u m) = location m"
  by (simp_all add: detect_parameters_def Let_def)

section \<open>Query category\<close>

text \<open>
  Claim C8, as the code has it. The category is decided by five substring tests on the
  lowercased query, in this order: \<^verbatim>\<open>order by pressure_dbar\<close> gives profile,
  \<^verbatim>\<open>order by date_time\<close> gives time_series, \<^verbatim>\<open>st_dwithin\<close> or \<^verbatim>\<open>st_distance\<close>
  gives spatial, \<^verbatim>\<open>float_id\<close> gives float_specific, anything else general. The
  spatial flag is set exactly when the category is spatial. The sort direction that
  follows \<^verbatim>\<open>order by pressure_dbar\<close> is not inspected.
\<close>

theorem query_type_precedence:
  "query_type (extract_query_metadata sql text) =
     (if str_in ''order by pressure_dbar'' (lower sql) then ''profile''
      else if str_in ''order by date_time'' (lower sql) then ''time_series''
      else if str_in ''st_dwithin'' (lower sql) \<or> str_in ''st_distance'' (lower sql)
        then ''spatial''
      else if str_in ''float_id'' (lower sql) then ''float_specific''
      else ''general'')
   \<and> spatial_query (extract_query_metadata sql text) =
     (query_type (extract_query_metadata sql text) = ''spatial'')"
  by (simp add: extract_query_metadata_def Let_def detect_query_type_def initial_metadata_def)

text \<open>
  A query that orders by the pressure column in descending order is still classed as
  profile, so "orders by the depth/pressure column ascending" is not what is tested.
\<close>

theorem descending_profile_counterexample:
  "str_in ''order by pressure_dbar desc''
     (lower ''SELECT * FROM argo_floats ORDER BY pressure_dbar DESC LIMIT 100;'')
   \<and> query_type (extract_query_metadata
        ''SELECT * FROM argo_floats ORDER BY pressure_dbar DESC LIMIT 100;''
        ''deepest measurements first'') = ''profile''"
  by code_simp

section \<open>Location\<close>

lemma scan_locations_find:
  "scan_locations g s = map_option (title \<circ> fst) (find (\<lambda>(place, keywords). any_in keywords s) g)"
  by (induction g s rule: scan_locations.induct) auto

lemma any_in_member: "w \<in> set ws \<Longrightarrow> str_in w s \<Longrightarrow> any_in ws s"
  by (auto simp: any_in_def list_ex_iff)

text \<open>
  Claim C7, as the code has it. \<open>extract_location\<close> matches the lowercased text against
  the gazetteer with its alternate names: text containing "bombay" gives Mumbai; the
  first entry with a keyword in the text wins and is title-cased; the city entries come
  before the ocean regions; text with no keyword gives no location. The location in the
  metadata of \<open>extract_query_metadata\<close> uses the seven city names and three region
  names only, without alternate names: the first region in the text is the location, and
  the first city only when no region occurs.
\<close>

theorem location_extraction:
  "(str_in ''bombay'' (lower text) \<longrightarrow> extract_location text = Some ''Mumbai'')
   \<and> extract_location text =
       map_option (title \<circ> fst) (find (\<lambda>(place, keywords). any_in keywords (lower text)) gazetteer)
   \<and> map fst gazetteer = locations @ [''gujarat''] @ regions
   \<and> (\<not> list_ex (\<lambda>(place, keywords). any_in keywords (lower text)) gazetteer
        \<longrightarrow> extract_location text = None)
   \<and> location (extract_query_metadata sql text) =
       (case find (\<lambda>region. str_in region (lower text)) regions of
          Some region \<Rightarrow> Some (title region)
        | None \<Rightarrow> map_option title (find (\<lambda>city. str_in city (lower text)) locations))"
proof (intro conjI impI)
  assume "str_in ''bombay'' (lower text)"
  then have "any_in [''mumbai'', ''bombay''] (lower text)"
    by (simp add: any_in_def)
  then have "extract_location text = Some (title ''mumbai'')"
    by (simp add: extract_location_def gazetteer_def)
  also have "title ''mumbai'' = ''Mumbai''"
    by code_simp
  finally show "extract_location text = Some ''Mumbai''" .
next
  show "extract_location text =
       map_option (title \<circ> fst) (find (\<lambda>(place, keywords). any_in keywords (lower text)) gazetteer)"
    by (simp only: extract_location_def scan_locations_find)
next
  show "map fst gazetteer = locations @ [''gujarat''] @ regions"
    by (simp add: gazetteer_def locations_def regions_def)
next
  assume "\<not> list_ex (\<lambda>(place, keywords). any_in keywords (lower text)) gazetteer"
  then have "find (\<lambda>(place, keywords). any_in keywords (lower text)) gazetteer = None"
    by (auto simp: find_None_iff list_ex_iff)
  then show "extract_location text = None"
    by (simp only: extract_location_def scan_locations_find option.map)
next
  show "location (extract_query_metadata sql text) =
       (case find (\<lambda>region. str_in region (lower text)) regions of
          Some region \<Rightarrow> Some (title region)
        | None \<Rightarrow> map_option title (find (\<lambda>city. str_in city (lower text)) locations))"
    by (simp add: extract_query_metadata_def Let_def first_mention_location
        detect_query_type_def initial_metadata_def split: option.splits)
qed

text \<open>The two implications of \<open>location_extraction\<close> at concrete texts.\<close>

theorem location_extraction_witness:
  "str_in ''bombay'' (lower ''Salinity near Bombay'')
   \<and> extract_location ''Salinity near Bombay'' = Some ''Mumbai''
   \<and> \<not> list_ex (\<lambda>(place, keywords). any_in keywords (lower ''warm water'')) gazetteer
   \<and> extract_location ''warm water'' = None"
proof -
  have a: "str_in ''bombay'' (lower ''Salinity near Bombay'')" by code_simp
  have b: "\<not> list_ex (\<lambda>(place, keywords). any_in keywords (lower ''warm water'')) gazetteer"
    by code_simp
  from a b location_extraction [of "''Salinity near Bombay''"]
    location_extraction [of "''warm water''"]
  show ?thesis by blast
qed

text \<open>
  The metadata extractor does not know "bombay", and a region named after a city
  replaces the city.
\<close>

theorem metadata_location_counterexample:
  "str_in ''bombay'' (lower ''salinity near Bombay'')
   \<and> location (extract_query_metadata ''SELECT * FROM argo_floats LIMIT 10;''
                 ''salinity near Bombay'') = None
   \<and> location (extract_query_metadata ''SELECT * FROM argo_floats LIMIT 10;''
                 ''mumbai coast of the arabian sea'') = Some ''Arabian Sea''"
  by code_simp

section \<open>Summary ranges of a fetched table\<close>

lemma renamed_not_lowercase:
  "(case map_of column_mapping name of Some new \<Rightarrow> new | None \<Rightarrow> name)
     \<notin> {''pressure_dbar'', ''temperature_celsius'', ''salinity_psu''}"
  by (simp add: column_mapping_def)

lemma rename_columns_names:
  "map fst (rename_columns mapping df) =
     map (\<lambda>name. case map_of mapping name of Some new \<Rightarrow> new | None \<Rightarrow> name) (map fst df)"
  by (simp add: rename_columns_def case_prod_unfold comp_def)

lemma convert_column_names: "map fst (convert_column name f df) = map fst df"
  by (simp add: convert_column_def case_prod_unfold comp_def)

lemma create_mock_data_names:
  "map fst (create_mock_data v) =
     [''Float_ID'', ''Latitude'', ''Longitude'', ''Pressure_dbar'',
      ''Temperature_Celsius'', ''Salinity_PSU'', ''Date_Time'']"
  by (simp add: create_mock_data_def)

lemma fetched_has_no_lowercase_column:
  assumes "k \<in> {''pressure_dbar'', ''temperature_celsius'', ''salinity_psu''}"
  shows "map_of (fetch_data_from_db pd run_query mock sql) k = None"
proof -
  have renamed: "k \<notin> set (map fst (rename_columns column_mapping raw))" for raw :: "'a table"
  proof
    assume "k \<in> set (map fst (rename_columns column_mapping raw))"
    then obtain name where
      "k = (case map_of column_mapping name of Some new \<Rightarrow> new | None \<Rightarrow> name)"
      unfolding rename_columns_names by auto
    with renamed_not_lowercase [of name] assms show False by simp
  qed
  have mock_names: "k \<notin> set (map fst (create_mock_data mock))"
    using assms unfolding create_mock_data_names by auto
  have "k \<notin> set (map fst (fetch_data_from_db pd run_query mock sql))"
  proof (cases "run_query sql")
    case (Inl e)
    then show ?thesis
      using mock_names by (simp add: fetch_data_from_db_def)
  next
    case (Inr raw)
    then show ?thesis
      using renamed [of raw]
      by (simp add: fetch_data_from_db_def Let_def convert_column_names del: set_map)
  qed
  then show ?thesis
    by (simp add: map_of_eq_None_iff)
qed

text \<open>
  Claim C10. Whatever the database returns (a raw table, renamed, or an exception and
  the mock table), the fetched table has no column named \<^verbatim>\<open>pressure_dbar\<close>,
  \<^verbatim>\<open>temperature_celsius\<close> or \<^verbatim>\<open>salinity_psu\<close>, so the depth, temperature and salinity
  ranges of the data summary are the fixed fallback values.
\<close>

theorem summary_ranges_are_fallbacks:
  "summary_depth_range (build_data_summary pd (fetch_data_from_db pd run_query mock sql))
     = \<lparr> surface = Float 0, bottom = Float 2000 \<rparr>
   \<and> temp_range (build_data_summary pd (fetch_data_from_db pd run_query mock sql))
     = \<lparr> range_min = Float 2, range_max = Float 30, range_mean = Float 15 \<rparr>
   \<and> salinity_range (build_data_summary pd (fetch_data_from_db pd run_query mock sql))
     = \<lparr> range_min = Float 33, range_max = Float 37, range_mean = Float 35 \<rparr>"
  by (simp add: build_data_summary_def get_depth_range_def depth_range_guarded_def
      get_temp_range_def temp_range_guarded_def get_salinity_range_def
      salinity_range_guarded_def fetched_has_no_lowercase_column)

section \<open>The responses of the pipeline\<close>

lemma generate_step_log:
  "generate_step env q = (log1, outcome) \<Longrightarrow>
     Step3_visualizing \<notin> set log1 \<and> Step4_responding \<notin> set log1"
  by (auto simp: generate_step_def split: option.splits sum.splits prod.splits)

text \<open>
  Claim C1: for every text the call never raises, every exception being turned into a
  response with \<open>success = False\<close>. The handler covers the \<^verbatim>\<open>try\<close> block only, and
  the query text is printed before the block is entered. For the text that consists of
  the lone surrogate U+D800 the print raises \<^verbatim>\<open>UnicodeEncodeError\<close>, nothing has been
  printed and no response is returned: the exception reaches the caller, whatever the
  collaborators are.
\<close>

theorem lone_surrogate_query_raises:
  "call_process_user_query env [CHR 0xED, CHR 0xA0, CHR 0x80]
     = ([], Inl ''UnicodeEncodeError: surrogates not allowed'')"
  by (simp add: call_process_user_query_def print_text_def)

text \<open>
  Claim C5. When the fetch step returns an empty table, the response is the no-data
  response: \<open>success = False\<close>, three suggestions, no plots. The visualization and
  response steps are not started, and the result is the same whatever the plot generator
  and the chatbot are.
\<close>

theorem empty_result_short_circuits:
  assumes "generate_step env q = (log1, Inr (sql, meta))"
    and "fetch_data env sql = Inr df"
    and "df_empty df"
  shows "\<exists>printed r.
     process_user_query env q = (printed, Inr r)
     \<and> r = handle_no_data_response q meta
     \<and> \<not> success r
     \<and> suggestions r \<noteq> []
     \<and> plots r = []
     \<and> Step3_visualizing \<notin> set printed
     \<and> Step4_responding \<notin> set printed
     \<and> process_user_query (env\<lparr>generate_plots := other_plots, chatbot := other_chatbot\<rparr>) q
         = (printed, Inr r)"
proof -
  have same: "generate_step (env\<lparr>generate_plots := other_plots, chatbot := other_chatbot\<rparr>) q
      = generate_step env q"
    by (simp add: generate_step_def)
  from assms have body: "pipeline_body env q
      = (log1 @ [Step2_fetching], Inr (handle_no_data_response q meta))"
    by (simp add: pipeline_body_def)
  from assms same have body': "pipeline_body (env\<lparr>generate_plots := other_plots, chatbot := other_chatbot\<rparr>) q
      = (log1 @ [Step2_fetching], Inr (handle_no_data_response q meta))"
    by (simp add: pipeline_body_def)
  from generate_step_log [OF assms(1)] body body' show ?thesis
    by (simp add: process_user_query_def handle_no_data_response_def)
qed

text \<open>
  Claim C6. When \<^verbatim>\<open>generate_plots_from_data\<close> raises, the plot result becomes the
  failed one (no plots, the error text recorded), the response step still runs, and the
  response carries the narrative it produced, the data summary and an empty plot list.
\<close>

theorem render_failure_keeps_narrative:
  assumes "generate_step env q = (log1, Inr (sql, meta))"
    and "fetch_data env sql = Inr df"
    and "\<not> df_empty df"
    and "generate_plots env df q = Inl plot_error"
    and "narrate_step env q meta (build_data_summary (pandas_lib env) df) = Inr chat"
  shows "\<exists>printed r.
     visualize_step env df q
       = ([Step3_visualizing, Plot_generation_failed plot_error], failed_plot_result plot_error)
     \<and> pr_plots (failed_plot_result plot_error) = Some []
     \<and> pr_error (failed_plot_result plot_error) = Some plot_error
     \<and> process_user_query env q = (printed, Inr r)
     \<and> Step4_responding \<in> set printed
     \<and> success r
     \<and> chat_response r = chat
     \<and> plots r = []
     \<and> response_summary r = Some (Summary (build_data_summary (pandas_lib env) df))
     \<and> sql_metadata r = Some meta"
proof -
  from assms(4) have vis: "visualize_step env df q
       = ([Step3_visualizing, Plot_generation_failed plot_error], failed_plot_result plot_error)"
    by (simp add: visualize_step_def)
  have pack: "\<exists>r. package_complete_response q sql meta summ (failed_plot_result plot_error)
        chat t stamp = Inr r \<and> success r \<and> chat_response r = chat \<and> plots r = []
        \<and> response_summary r = Some (Summary summ) \<and> sql_metadata r = Some meta"
    for summ t stamp
    by (simp add: package_complete_response_def failed_plot_result_def)
  define summ where "summ = build_data_summary (pandas_lib env) df"
  define t where "t = end_time env - start_time env"
  from pack [of summ t "time_stamp env"] obtain r where
    packed: "package_complete_response q sql meta summ (failed_plot_result plot_error)
        chat t (time_stamp env) = Inr r" and
    r: "success r" "chat_response r = chat" "plots r = []"
       "response_summary r = Some (Summary summ)" "sql_metadata r = Some meta"
    by blast
  from assms vis packed have body: "pipeline_body env q =
      (log1 @ [Step2_fetching, Retrieved (n_rows df)]
         @ [Step3_visualizing, Plot_generation_failed plot_error]
         @ [Step4_responding] @ [Processed t], Inr r)"
    by (simp add: pipeline_body_def Let_def summ_def t_def)
  have run: "process_user_query env q =
      (Processing_query q # log1 @ [Step2_fetching, Retrieved (n_rows df)]
         @ [Step3_visualizing, Plot_generation_failed plot_error]
         @ [Step4_responding] @ [Processed t], Inr r)"
    by (simp add: process_user_query_def body)
  have fp: "pr_plots (failed_plot_result plot_error) = Some []"
    "pr_error (failed_plot_result plot_error) = Some plot_error"
    by (simp_all add: failed_plot_result_def)
  from vis fp run r show ?thesis
    unfolding summ_def by simp
qed

text \<open>A database that returns a table with no rows.\<close>

theorem empty_result_short_circuits_witness:
  "generate_step empty_fetch ''salinity near the moon''
     = ([Step1_fallback], Inr (''SELECT * FROM argo_floats LIMIT 1000;'', Pipeline_fallback))
   \<and> fetch_data empty_fetch ''SELECT * FROM argo_floats LIMIT 1000;'' = Inr [(''Float_ID'', [])]
   \<and> df_empty [(''Float_ID'', [] :: real list)]
   \<and> snd (process_user_query empty_fetch ''salinity near the moon'')
       = Inr (handle_no_data_response ''salinity near the moon'' Pipeline_fallback)"
proof -
  have h1: "generate_step empty_fetch ''salinity near the moon''
     = ([Step1_fallback], Inr (''SELECT * FROM argo_floats LIMIT 1000;'', Pipeline_fallback))"
    by (simp add: generate_step_def empty_fetch_def)
  have h2: "fetch_data empty_fetch ''SELECT * FROM argo_floats LIMIT 1000;''
      = Inr [(''Float_ID'', [])]"
    by (simp add: empty_fetch_def)
  have h3: "df_empty [(''Float_ID'', [] :: real list)]"
    by (simp add: df_empty_def n_rows_def)
  from empty_result_short_circuits [OF h1 h2 h3,
      where other_plots = "generate_plots empty_fetch" and other_chatbot = None]
  have "snd (process_user_query empty_fetch ''salinity near the moon'')
       = Inr (handle_no_data_response ''salinity near the moon'' Pipeline_fallback)"
    by auto
  with h1 h2 h3 show ?thesis by simp
qed

text \<open>A renderer that raises, with the template narrative.\<close>

theorem render_failure_keeps_narrative_witness:
  "generate_step broken_renderer ''mumbai water''
     = ([Step1_fallback], Inr (''SELECT * FROM argo_floats LIMIT 1000;'', Pipeline_fallback))
   \<and> fetch_data broken_renderer ''SELECT * FROM argo_floats LIMIT 1000;''
       = Inr [(''Float_ID'', [5905529])]
   \<and> \<not> df_empty [(''Float_ID'', [5905529 :: real])]
   \<and> generate_plots broken_renderer [(''Float_ID'', [5905529])] ''mumbai water''
       = Inl ''kaleido is not installed''
   \<and> narrate_step broken_renderer ''mumbai water'' Pipeline_fallback
        (build_data_summary (pandas_lib broken_renderer) [(''Float_ID'', [5905529])])
       = Inr (Fallback_mumbai 1)
   \<and> (\<exists>printed r. process_user_query broken_renderer ''mumbai water'' = (printed, Inr r)
         \<and> success r \<and> chat_response r = Fallback_mumbai 1 \<and> plots r = [])"
proof -
  have h1: "generate_step broken_renderer ''mumbai water''
     = ([Step1_fallback], Inr (''SELECT * FROM argo_floats LIMIT 1000;'', Pipeline_fallback))"
    by (simp add: generate_step_def broken_renderer_def)
  have h2: "fetch_data broken_renderer ''SELECT * FROM argo_floats LIMIT 1000;''
       = Inr [(''Float_ID'', [5905529])]"
    by (simp add: broken_renderer_def)
  have h3: "\<not> df_empty [(''Float_ID'', [5905529 :: real])]"
    by (simp add: df_empty_def n_rows_def)
  have h4: "generate_plots broken_renderer [(''Float_ID'', [5905529])] ''mumbai water''
       = Inl ''kaleido is not installed''"
    by (simp add: broken_renderer_def)
  have h5: "narrate_step broken_renderer ''mumbai water'' Pipeline_fallback
        (build_data_summary (pandas_lib broken_renderer) [(''Float_ID'', [5905529])])
       = Inr (Fallback_mumbai 1)"
    by (simp add: narrate_step_def broken_renderer_def generate_fallback_response_def
        build_data_summary_def n_rows_def lower_def lower_char_def)
  from render_failure_keeps_narrative [OF h1 h2 h3 h4 h5]
  have "\<exists>printed r. process_user_query broken_renderer ''mumbai water'' = (printed, Inr r)
         \<and> success r \<and> chat_response r = Fallback_mumbai 1 \<and> plots r = []"
    by blast
  with h1 h2 h3 h4 h5 show ?thesis by blast
qed

section \<open>Score dictionaries and the selection loop\<close>

lemma dict_set_keys: "k \<in> fst ` set d \<Longrightarrow> map fst (dict_set d k v) = map fst d"
proof (induction d)
  case Nil
  then show ?case by simp
next
  case (Cons a d)
  obtain k' v' where a: "a = (k', v')" by (cases a)
  show ?case
  proof (cases "k' = k")
    case True
    with a show ?thesis by simp
  next
    case False
    with Cons.prems a have "k \<in> fst ` set d" by auto
    with Cons.IH False a show ?thesis by simp
  qed
qed

lemma dict_set_map_of: "map_of (dict_set d k v) k' = (if k' = k then Some v else map_of d k')"
  by (induction d) auto

lemma dict_set_entry: "(a, b) \<in> set (dict_set d k v) \<Longrightarrow> b = v \<or> (a, b) \<in> set d"
  by (induction d) (auto split: if_splits)

lemma dict_set_values: "snd ` set (dict_set d k v) \<subseteq> insert v (snd ` set d)"
proof
  fix b assume "b \<in> snd ` set (dict_set d k v)"
  then obtain a where "(a, b) \<in> set (dict_set d k v)" by auto
  from dict_set_entry [OF this] show "b \<in> insert v (snd ` set d)"
    by (auto intro: rev_image_eqI)
qed

lemma dict_set_same: "distinct (map fst d) \<Longrightarrow> (k, v) \<in> set d \<Longrightarrow> dict_set d k v = d"
  by (induction d) (auto simp: rev_image_eqI)

lemma dict_item_present: "k \<in> fst ` set d \<Longrightarrow> \<exists>v. dict_item d k = Inr v \<and> (k, v) \<in> set d"
  by (auto simp: dict_item_def split: option.splits dest: map_of_SomeD simp: map_of_eq_None_iff)

lemma sorted_by_score_set [simp]: "set (sorted_by_score items) = set items"
  by (simp add: sorted_by_score_def)

lemma sorted_by_score_length [simp]: "length (sorted_by_score items) = length items"
  by (simp add: sorted_by_score_def)

lemma sorted_by_score_distinct_keys:
  "distinct (map fst items) \<Longrightarrow> distinct (map fst (sorted_by_score items))"
  by (simp add: sorted_by_score_def distinct_map)

lemma take_distinct_keys: "distinct (map fst items) \<Longrightarrow> distinct (map fst (take n items))"
  by (simp add: take_map [symmetric])

lemma add_complementary_result:
  assumes "distinct (map fst items)" and "fst ` set items \<subseteq> fst ` set enhanced"
  shows "\<exists>enhanced'.
     add_complementary items chosen enhanced
       = Inr (chosen @ map fst (filter (\<lambda>(p, s). p \<notin> set chosen \<and> s > 0.2) items), enhanced')
     \<and> map fst enhanced' = map fst enhanced"
  using assms
proof (induction items arbitrary: chosen enhanced)
  case Nil
  then show ?case by simp
next
  case (Cons item rest)
  obtain p s where item: "item = (p, s)" by (cases item)
  from Cons.prems item have fresh: "p \<notin> fst ` set rest" and d: "distinct (map fst rest)"
    and sub: "fst ` set rest \<subseteq> fst ` set enhanced" and pk: "p \<in> fst ` set enhanced"
    by auto
  show ?case
  proof (cases "p \<notin> set chosen \<and> s > 0.2")
    case False
    with Cons.IH [OF d sub, of chosen] item show ?thesis by auto
  next
    case True
    from dict_item_present [OF pk] obtain cur where cur: "dict_item enhanced p = Inr cur"
      by blast
    let ?e = "dict_set enhanced p (max cur 0.5)"
    have keys: "map fst ?e = map fst enhanced"
      by (rule dict_set_keys [OF pk])
    then have sub': "fst ` set rest \<subseteq> fst ` set ?e"
      using sub by (metis set_map)
    have same: "filter (\<lambda>(q, t). q \<notin> set (chosen @ [p]) \<and> t > 0.2) rest
        = filter (\<lambda>(q, t). q \<notin> set chosen \<and> t > 0.2) rest"
      using fresh by (intro filter_cong) (auto simp: rev_image_eqI)
    from Cons.IH [OF d sub', of "chosen @ [p]"] obtain e' where
      "add_complementary rest (chosen @ [p]) ?e
         = Inr ((chosen @ [p]) @ map fst (filter (\<lambda>(q, t). q \<notin> set (chosen @ [p]) \<and> t > 0.2) rest), e')"
      and "map fst e' = map fst ?e"
      by blast
    with True item cur same keys show ?thesis by simp
  qed
qed

lemma add_complementary_values:
  "add_complementary items chosen enhanced = Inr (chosen', enhanced') \<Longrightarrow>
   (\<forall>v \<in> snd ` set enhanced. 0 \<le> v \<and> v \<le> 1) \<Longrightarrow>
   (\<forall>v \<in> snd ` set enhanced'. 0 \<le> v \<and> v \<le> 1)"
proof (induction items chosen enhanced rule: add_complementary.induct)
  case (1 chosen enhanced)
  then show ?case by simp
next
  case (2 p s rest chosen enhanced)
  show ?case
  proof (cases "p \<notin> set chosen \<and> s > 0.2")
    case False
    then have c: "(p \<notin> set chosen \<and> s > 0.2) = False" by blast
    from "2.prems"(1) have "add_complementary rest chosen enhanced = Inr (chosen', enhanced')"
      by (simp only: add_complementary.simps c if_False)
    from "2.IH"(2) [OF False this "2.prems"(2)] show ?thesis .
  next
    case True
    then have c: "(p \<notin> set chosen \<and> s > 0.2) = True" by blast
    from "2.prems"(1) have eq: "(case dict_item enhanced p of
              Inl e \<Rightarrow> Inl e
            | Inr current \<Rightarrow>
                add_complementary rest (chosen @ [p])
                  (dict_set enhanced p (max current 0.5))) = Inr (chosen', enhanced')"
      by (simp only: add_complementary.simps c if_True)
    then obtain cur where cur: "dict_item enhanced p = Inr cur"
      and run: "add_complementary rest (chosen @ [p]) (dict_set enhanced p (max cur 0.5))
                  = Inr (chosen', enhanced')"
      by (cases "dict_item enhanced p") simp_all
    from cur have "cur \<in> snd ` set enhanced"
      by (auto simp: dict_item_def split: option.splits dest!: map_of_SomeD
          intro: rev_image_eqI)
    with "2.prems"(2) have b: "0 \<le> max cur 0.5 \<and> max cur 0.5 \<le> 1"
      by fastforce
    have "\<forall>w \<in> snd ` set (dict_set enhanced p (max cur 0.5)). 0 \<le> w \<and> w \<le> 1"
    proof
      fix w
      assume "w \<in> snd ` set (dict_set enhanced p (max cur 0.5))"
      with dict_set_values [of enhanced p "max cur 0.5"]
      have "w = max cur 0.5 \<or> w \<in> snd ` set enhanced"
        by (meson insertE subsetD)
      then show "0 \<le> w \<and> w \<le> 1"
      proof
        assume "w = max cur 0.5"
        with b show ?thesis by (simp only:)
      next
        assume "w \<in> snd ` set enhanced"
        with "2.prems"(2) show ?thesis by (rule bspec)
      qed
    qed
    from "2.IH"(1) [OF True cur run this] show ?thesis .
  qed
qed

lemma scores_of_present:
  "set ps \<subseteq> fst ` set d \<Longrightarrow> \<exists>pairs. scores_of d ps = Inr pairs \<and> map fst pairs = ps"
proof (induction ps)
  case Nil
  then show ?case by simp
next
  case (Cons p ps)
  then obtain pairs where "scores_of d ps = Inr pairs" "map fst pairs = ps" by auto
  moreover from Cons.prems dict_item_present [of p d] obtain v where "dict_item d p = Inr v"
    by auto
  ultimately show ?case by simp
qed

lemma scores_of_all: "distinct (map fst d) \<Longrightarrow> scores_of d (map fst d) = Inr d"
proof -
  have "distinct (map fst d) \<Longrightarrow> set xs \<subseteq> set d \<Longrightarrow> scores_of d (map fst xs) = Inr xs" for xs
  proof (induction xs)
    case Nil
    then show ?case by simp
  next
    case (Cons x xs)
    obtain k v where x: "x = (k, v)" by (cases x)
    with Cons.prems have h: "map_of d k = Some v" by simp
    have "dict_item d k = Inr v"
      by (simp only: dict_item_def h option.case)
    with Cons x show ?case by simp
  qed
  then show "distinct (map fst d) \<Longrightarrow> scores_of d (map fst d) = Inr d" by simp
qed

lemma filter_keeps_all: "length (filter P xs) = length xs \<Longrightarrow> filter P xs = xs"
proof (induction xs)
  case Nil
  then show ?case by simp
next
  case (Cons x xs)
  show ?case
  proof (cases "P x")
    case True
    with Cons show ?thesis by simp
  next
    case False
    with Cons.prems length_filter_le [of P xs] show ?thesis by simp
  qed
qed

lemma above_threshold_keys: "set (above_threshold E thr) \<subseteq> fst ` set E"
  by (auto simp: above_threshold_def intro: rev_image_eqI)

lemma above_threshold_length: "length (above_threshold E thr) \<le> length E"
  by (simp add: above_threshold_def)

lemma above_threshold_all:
  "length (above_threshold E thr) = length E \<Longrightarrow> above_threshold E thr = map fst E"
  by (simp add: above_threshold_def filter_keeps_all)

lemma combine_scores_explicit:
  "combine_scores r ml =
     [(''profile'', max (rule_profile r) (dict_get ml ''profile'' 0 * 0.8)),
      (''time_series'', max (rule_time_series r) (dict_get ml ''time_series'' 0 * 0.8)),
      (''map'', max (rule_map r) (dict_get ml ''map'' 0 * 0.8)),
      (''ts_diagram'', max (rule_ts_diagram r) (dict_get ml ''ts_diagram'' 0 * 0.8)),
      (''3d_scatter'', max (rule_3d_scatter r) (dict_get ml ''3d_scatter'' 0 * 0.8))]"
  by (simp add: combine_scores_def plot_categories_def rule_get_def)

lemma blended_scores_keys:
  "blended_scores predictions prompt = Inr B \<Longrightarrow> map fst B = plot_categories"
  by (auto simp: blended_scores_def combine_scores_explicit plot_categories_def
      split: sum.splits)

lemma dict_set_categories:
  assumes "map fst d = plot_categories" and "k \<in> set plot_categories"
  shows "map fst (dict_set d k v) = plot_categories"
proof -
  from assms have "k \<in> fst ` set d" by (metis set_map)
  from dict_set_keys [OF this] assms(1) show ?thesis by simp
qed

lemma apply_floor_keys:
  assumes "map fst E = plot_categories"
  shows "map fst (apply_floor E m) = plot_categories"
  using assms
  by (simp add: apply_floor_def dict_set_categories plot_categories_def [symmetric])
    (simp add: dict_set_categories plot_categories_def)

lemma floored_scores_keys:
  "floored_scores predictions prompt = Inr E \<Longrightarrow> map fst E = plot_categories"
  by (auto simp: floored_scores_def apply_floor_keys blended_scores_keys split: sum.splits)

lemma select_plots_shape:
  assumes keys: "map fst E = plot_categories"
  shows "\<exists>E'. select_plots E thr = Inr (selection_of E thr, E')
           \<and> map fst E' = plot_categories
           \<and> 1 \<le> length (selection_of E thr) \<and> length (selection_of E thr) \<le> 4
           \<and> set (selection_of E thr) \<subseteq> set plot_categories"
proof -
  define n where "n = above_threshold E thr"
  define items where "items = take 3 (sorted_by_score E)"
  define added where "added = complementary E n"
  have nE: "above_threshold E thr = n" by (simp add: n_def)
  have iE: "take 3 (sorted_by_score E) = items" by (simp add: items_def)
  have aE: "complementary E n = added" by (simp add: added_def)
  have added_items: "added = map fst (filter (\<lambda>(p, s). p \<notin> set n \<and> s > 0.2) items)"
    by (simp add: added_def complementary_def items_def)
  have dist: "distinct (map fst E)" and len: "length E = 5"
    using keys by (simp_all add: plot_categories_def flip: length_map [of fst E])
  have kset: "fst ` set E = set plot_categories"
    using keys by (metis set_map)
  have n_sub: "set n \<subseteq> set plot_categories"
    unfolding n_def using above_threshold_keys [of E thr] kset by simp
  have items_sub: "fst ` set items \<subseteq> fst ` set E"
    unfolding items_def by (auto dest!: in_set_takeD intro: rev_image_eqI)
  have items_dist: "distinct (map fst items)"
    unfolding items_def by (intro take_distinct_keys sorted_by_score_distinct_keys dist)
  have added_len: "length added \<le> 3"
  proof -
    have "length added \<le> length items" by (simp add: added_items)
    also have "\<dots> \<le> 3" by (simp add: items_def)
    finally show ?thesis .
  qed
  have added_sub: "set added \<subseteq> set plot_categories"
    using items_sub kset by (auto simp: added_items intro: rev_image_eqI)
  show ?thesis
  proof (cases "length n < 2")
    case True
    from add_complementary_result [OF items_dist items_sub, of n] obtain E2 where
      run: "add_complementary items n E = Inr (n @ added, E2)" and k2: "map fst E2 = map fst E"
      unfolding added_items by blast
    from True added_len have short: "length (n @ added) \<le> 4" by simp
    have sel1: "selection_of E thr = finish_selection E (n @ added)"
      by (simp add: selection_of_def Let_def nE aE True)
    have run1: "select_plots E thr =
        (let (chosen3, enhanced3) =
               (if n @ added = []
                then ([''3d_scatter'', ''profile''],
                      dict_set (dict_set E2 ''3d_scatter'' 0.8) ''profile'' 0.7)
                else (n @ added, E2))
         in case limit_plots chosen3 enhanced3 of
              Inl e \<Rightarrow> Inl e
            | Inr chosen4 \<Rightarrow> Inr (chosen4, enhanced3))"
      by (simp add: select_plots_def Let_def nE iE True run)
    show ?thesis
    proof (cases "n @ added = []")
      case empty: True
      let ?E3 = "dict_set (dict_set E2 ''3d_scatter'' 0.8) ''profile'' 0.7"
      have k2': "map fst E2 = plot_categories"
        using k2 keys by simp
      have k3a: "map fst (dict_set E2 ''3d_scatter'' 0.8) = plot_categories"
        by (rule dict_set_categories [OF k2']) (simp add: plot_categories_def)
      have k3: "map fst ?E3 = plot_categories"
        by (rule dict_set_categories [OF k3a]) (simp add: plot_categories_def)
      have sel: "selection_of E thr = [''3d_scatter'', ''profile'']"
        using empty by (simp add: sel1 finish_selection_def)
      have "select_plots E thr = Inr ([''3d_scatter'', ''profile''], ?E3)"
        using empty by (simp add: run1 limit_plots_def)
      with sel k3 show ?thesis by (simp add: plot_categories_def)
    next
      case False
      have sel: "selection_of E thr = n @ added"
        using False short by (simp add: sel1 finish_selection_def)
      have "select_plots E thr = Inr (n @ added, E2)"
        using False short by (simp add: run1 limit_plots_def)
      moreover have "1 \<le> length (n @ added)"
        using False by (cases "n @ added") simp_all
      ultimately show ?thesis
        using sel k2 keys short n_sub added_sub by simp
    qed
  next
    case False
    then have nonempty: "n \<noteq> []" by auto
    have sel1: "selection_of E thr = finish_selection E n"
      by (simp add: selection_of_def Let_def nE False)
    have run1: "select_plots E thr =
        (case limit_plots n E of Inl e \<Rightarrow> Inl e | Inr chosen4 \<Rightarrow> Inr (chosen4, E))"
      using nonempty by (simp add: select_plots_def Let_def nE False)
    show ?thesis
    proof (cases "length n > 4")
      case True
      with above_threshold_length [of E thr] len have "length n = length E"
        by (simp add: n_def)
      then have all: "n = map fst E"
        unfolding n_def by (rule above_threshold_all)
      then have sc: "scores_of E n = Inr E"
        using scores_of_all [OF dist] by simp
      let ?top = "map fst (take 4 (sorted_by_score E))"
      have sel: "selection_of E thr = ?top"
        using True nonempty by (simp add: sel1 finish_selection_def)
      have run: "select_plots E thr = Inr (?top, E)"
        using True sc by (simp add: run1 limit_plots_def)
      have "length ?top = 4" by (simp add: len)
      moreover have "set ?top \<subseteq> set plot_categories"
      proof
        fix p assume "p \<in> set ?top"
        then obtain v where "(p, v) \<in> set (take 4 (sorted_by_score E))" by auto
        then have "(p, v) \<in> set E" by (auto dest: in_set_takeD)
        then have "p \<in> fst ` set E" by (rule rev_image_eqI) simp
        with kset show "p \<in> set plot_categories" by simp
      qed
      ultimately show ?thesis using sel run keys by simp
    next
      case few: False
      have sel: "selection_of E thr = n"
        using few nonempty by (simp add: sel1 finish_selection_def)
      have run: "select_plots E thr = Inr (n, E)"
        using few by (simp add: run1 limit_plots_def)
      from sel run keys few False n_sub show ?thesis by simp
    qed
  qed
qed

section \<open>The selected plots\<close>

text \<open>
  Claim C2, as the code has it. For every classifier, prompt and threshold the selection
  has between one and four labels, all from the five plot categories. When the
  classifier and the scoring return, the selection is \<open>selection_of E threshold\<close> for
  the enhanced scores \<open>E\<close>: the labels at or above the threshold; when fewer than two
  reach it, followed by every label among the three highest-scoring ones that is not
  yet chosen and scores above 0.2; the pair 3d_scatter, profile only if the selection is
  still empty; and the four highest-scoring labels when more than four are chosen.
\<close>

theorem classify_selection:
  "1 \<le> length (fst (classify_prompt predict_proba prompt threshold))
   \<and> length (fst (classify_prompt predict_proba prompt threshold)) \<le> 4
   \<and> set (fst (classify_prompt predict_proba prompt threshold)) \<subseteq> set plot_categories
   \<and> (\<forall>predictions E.
         predict_proba prompt = Inr predictions \<longrightarrow>
         floored_scores predictions prompt = Inr E \<longrightarrow>
         fst (classify_prompt predict_proba prompt threshold) = selection_of E threshold)"
proof (cases "predict_proba prompt")
  case (Inl e)
  then show ?thesis
    by (simp add: classify_prompt_def fallback_classification_def plot_categories_def)
next
  case (Inr predictions)
  show ?thesis
  proof (cases "floored_scores predictions prompt")
    case (Inl e)
    with Inr show ?thesis
      by (simp add: classify_prompt_def fallback_classification_def plot_categories_def)
  next
    case floored: (Inr E)
    from select_plots_shape [OF floored_scores_keys [OF floored], of threshold]
    obtain E' where run: "select_plots E threshold = Inr (selection_of E threshold, E')"
      and shape: "1 \<le> length (selection_of E threshold)"
        "length (selection_of E threshold) \<le> 4"
        "set (selection_of E threshold) \<subseteq> set plot_categories"
      by blast
    from Inr floored run have "fst (classify_prompt predict_proba prompt threshold)
        = selection_of E threshold"
      by (simp add: classify_prompt_def)
    with shape Inr floored show ?thesis by simp
  qed
qed

text \<open>The prompt "profile" at threshold 0.95.\<close>

theorem classify_selection_witness:
  "even_odds ''profile'' = Inr [[0.5, 0.5]]
   \<and> floored_scores [[0.5, 0.5]] ''profile''
       = Inr [(''profile'', 0.9), (''time_series'', 0.08), (''map'', 0.08),
              (''ts_diagram'', 0.7), (''3d_scatter'', 0.6)]
   \<and> fst (classify_prompt even_odds ''profile'' 0.95)
       = selection_of [(''profile'', 0.9), (''time_series'', 0.08), (''map'', 0.08),
                       (''ts_diagram'', 0.7), (''3d_scatter'', 0.6)] 0.95"
proof -
  have h1: "even_odds ''profile'' = Inr [[0.5, 0.5]]"
    by (simp add: even_odds_def)
  have h2: "floored_scores [[0.5, 0.5]] ''profile''
       = Inr [(''profile'', 0.9), (''time_series'', 0.08), (''map'', 0.08),
              (''ts_diagram'', 0.7), (''3d_scatter'', 0.6)]"
    by code_simp
  from classify_selection [of even_odds "''profile''" "0.95"] h1 h2
  show ?thesis by blast
qed

text \<open>
  At threshold 0.95 no label of the prompt "profile" reaches the threshold, and the
  selection has three labels, not two and not the forced pair. For the empty prompt at
  the default threshold the selection is the single label profile.
\<close>

theorem selection_counterexample:
  "above_threshold [(''profile'', 0.9), (''time_series'', 0.08), (''map'', 0.08),
                    (''ts_diagram'', 0.7), (''3d_scatter'', 0.6)] 0.95 = []
   \<and> floored_scores [[0.5, 0.5]] ''profile''
       = Inr [(''profile'', 0.9), (''time_series'', 0.08), (''map'', 0.08),
              (''ts_diagram'', 0.7), (''3d_scatter'', 0.6)]
   \<and> fst (classify_prompt even_odds ''profile'' 0.95)
       = [''profile'', ''ts_diagram'', ''3d_scatter'']
   \<and> fst (classify_prompt even_odds '''' 0.3) = [''profile'']"
  by code_simp

section \<open>The scores\<close>

lemma select_plots_scores:
  assumes "select_plots E thr = Inr (c, E')"
    and "(if length (above_threshold E thr) < 2
          then add_complementary (take 3 (sorted_by_score E)) (above_threshold E thr) E
          else Inr (above_threshold E thr, E)) = Inr (c2, E2)"
  shows "E' = (if c2 = [] then dict_set (dict_set E2 ''3d_scatter'' 0.8) ''profile'' 0.7 else E2)"
proof -
  from assms(1) have "(let (chosen3, enhanced3) =
                    (if c2 = []
                     then ([''3d_scatter'', ''profile''],
                           dict_set (dict_set E2 ''3d_scatter'' 0.8) ''profile'' 0.7)
                     else (c2, E2))
              in case limit_plots chosen3 enhanced3 of
                   Inl e \<Rightarrow> Inl e
                 | Inr chosen4 \<Rightarrow> Inr (chosen4, enhanced3)) = Inr (c, E')"
    unfolding select_plots_def Let_def assms(2) by simp
  then show ?thesis
    by (cases "c2 = []") (auto split: sum.splits)
qed

lemma blended_scores_explicit:
  assumes "blended_scores predictions prompt = Inr B"
  obtains ml where "ml_scores predictions 0 plot_categories [] = Inr ml"
    and "B = combine_scores (intelligent_scores (lower prompt)) ml"
  using assms by (auto simp: blended_scores_def split: sum.splits)

lemma max_value_five:
  "max_value [(k1, b1), (k2, b2), (k3, b3), (k4, b4), (k5, b5)]
     = Inr (max b5 (max b4 (max b3 (max b2 b1))))"
  by (simp add: max_value_def)

lemma ml_scores_one_row:
  "ml_scores [[p0, p1]] 0 plot_categories []
     = Inr [(''profile'', max p1 p0), (''time_series'', 0.1), (''map'', 0.1),
            (''ts_diagram'', 0.1), (''3d_scatter'', 0.1)]"
  by (simp add: plot_categories_def probability_def row_max_def)

lemma blended_scores_one_row:
  "blended_scores [[p0, p1]] prompt
     = Inr [(''profile'', max (rule_profile (intelligent_scores (lower prompt))) (max p1 p0 * 0.8)),
            (''time_series'', max (rule_time_series (intelligent_scores (lower prompt))) 0.08),
            (''map'', max (rule_map (intelligent_scores (lower prompt))) 0.08),
            (''ts_diagram'', max (rule_ts_diagram (intelligent_scores (lower prompt))) 0.08),
            (''3d_scatter'', max (rule_3d_scatter (intelligent_scores (lower prompt))) 0.08)]"
  unfolding blended_scores_def ml_scores_one_row combine_scores_explicit
  by (simp add: dict_get_def)



lemma mumbai_rules:
  "intelligent_scores (lower ''show me the water profile of mumbai'')
     = \<lparr>rule_profile = 0.6, rule_time_series = 0, rule_map = 0.9, rule_ts_diagram = 0.7,
        rule_3d_scatter = 0.8\<rparr>"
  by code_simp

text \<open>
  Claim C4: for the prompt \<^verbatim>\<open>show me the water profile of mumbai\<close> at the default
  threshold 0.3 the selection has profile with a score of at least 0.9. The keyword
  \<^verbatim>\<open>profile\<close> sets the rule score of profile to 0.9, then the keyword \<^verbatim>\<open>mumbai\<close> of the
  map group assigns 0.6 to it, and the last group takes the maximum with 0.6. With
  classifier probabilities of at most 1 the returned score of profile is the larger of
  0.6 and 0.8 times the probability: at most 0.8. The selection is profile, map,
  ts_diagram and 3d_scatter.
\<close>

theorem water_profile_of_mumbai:
  assumes "predict_proba ''show me the water profile of mumbai'' = Inr [[p0, p1]]"
    and "p0 \<le> 1" and "p1 \<le> 1"
  shows "classify_prompt predict_proba ''show me the water profile of mumbai'' 0.3
           = ([''profile'', ''map'', ''ts_diagram'', ''3d_scatter''],
              [(''profile'', max 0.6 (max p1 p0 * 0.8)), (''time_series'', 0.08), (''map'', 0.9),
               (''ts_diagram'', 0.7), (''3d_scatter'', 0.8)])
         \<and> max 0.6 (max p1 p0 * 0.8) \<le> 0.8"
proof -
  let ?q = "''show me the water profile of mumbai''"
  let ?b = "max 0.6 (max p1 p0 * 0.8)"
  let ?B = "[(''profile'', ?b), (''time_series'', 0.08), (''map'', 0.9),
             (''ts_diagram'', 0.7), (''3d_scatter'', 0.8 :: real)]"
  from assms(3,2) have "max p1 p0 \<le> 1" by (rule max.boundedI)
  then have "max p1 p0 * 0.8 \<le> 0.8" by linarith
  moreover have "(0.6 :: real) \<le> 0.8" by simp
  ultimately have le: "?b \<le> 0.8" by (rule max.boundedI [rotated])
  have ge: "0.6 \<le> ?b" by simp
  have B: "blended_scores [[p0, p1]] ?q = Inr ?B"
    unfolding blended_scores_one_row mumbai_rules by simp
  let ?m = "max 0.8 (max 0.7 (max 0.9 (max 0.08 ?b)))"
  have m: "max_value ?B = Inr ?m"
    by (rule max_value_five)
  have "\<not> ?m < 0.4" by simp
  then have floor: "apply_floor ?B ?m = ?B"
    by (simp only: apply_floor_def if_False)
  from B m floor have F: "floored_scores [[p0, p1]] ?q = Inr ?B"
    by (simp only: floored_scores_def sum.case)
  have above: "above_threshold ?B 0.3 = [''profile'', ''map'', ''ts_diagram'', ''3d_scatter'']"
    using ge by (simp add: above_threshold_def)
  have S: "select_plots ?B 0.3 = Inr ([''profile'', ''map'', ''ts_diagram'', ''3d_scatter''], ?B)"
    unfolding select_plots_def Let_def above by (simp add: limit_plots_def)
  from assms(1) F S
  have "classify_prompt predict_proba ?q 0.3
          = ([''profile'', ''map'', ''ts_diagram'', ''3d_scatter''], ?B)"
    by (simp add: classify_prompt_def)
  then show ?thesis using le by (rule conjI)
qed

text \<open>The prompt at even odds: profile is returned with 0.6.\<close>

theorem water_profile_of_mumbai_witness:
  "even_odds ''show me the water profile of mumbai'' = Inr [[0.5, 0.5]]
   \<and> (0.5 :: real) \<le> 1
   \<and> classify_prompt even_odds ''show me the water profile of mumbai'' 0.3
       = ([''profile'', ''map'', ''ts_diagram'', ''3d_scatter''],
          [(''profile'', 0.6), (''time_series'', 0.08), (''map'', 0.9),
           (''ts_diagram'', 0.7), (''3d_scatter'', 0.8)])"
  using water_profile_of_mumbai [of even_odds "0.5" "0.5"]
  by (simp add: even_odds_def)

section \<open>Labels and bounds of the scores\<close>

lemma fold_max_member: "fold max xs (x :: real) \<in> set (x # xs)"
proof (induction xs arbitrary: x)
  case Nil
  then show ?case by simp
next
  case (Cons y ys)
  have "fold max ys (max y x) \<in> set (max y x # ys)" by (rule Cons.IH)
  then have "fold max ys (max y x) = max y x \<or> fold max ys (max y x) \<in> set ys"
    by simp
  moreover have "max y x = x \<or> max y x = y"
    by (simp add: max_def)
  ultimately have "fold max ys (max y x) \<in> set (x # y # ys)"
    by auto
  then show ?case by simp
qed

lemma probability_cases:
  assumes "probability predictions i = Inr v"
  shows "v = 0.1 \<or> (\<exists>row \<in> set predictions. v \<in> set row)"
proof (cases "length predictions > i")
  case False
  with assms show ?thesis by (simp add: probability_def)
next
  case True
  then have row: "predictions ! i \<in> set predictions" by simp
  from True assms have "row_max (predictions ! i) = Inr v"
    by (simp add: probability_def)
  then obtain x xs where "predictions ! i = x # xs" and "v = fold max xs x"
    by (auto simp: row_max_def split: list.splits)
  with fold_max_member [of xs x] have "v \<in> set (predictions ! i)" by simp
  with row show ?thesis by blast
qed

lemma probability_bounds:
  assumes "probability predictions i = Inr v"
    and "\<forall>row \<in> set predictions. \<forall>x \<in> set row. 0 \<le> x \<and> x \<le> 1"
  shows "0 \<le> v \<and> v \<le> 1"
  using probability_cases [OF assms(1)] assms(2) by auto

lemma probability_at_most_one:
  assumes "probability predictions i = Inr v"
    and "\<forall>row \<in> set predictions. \<forall>x \<in> set row. x \<le> 1"
  shows "v \<le> 1"
  using probability_cases [OF assms(1)] assms(2) by auto

lemma ml_scores_explicit:
  assumes "ml_scores predictions 0 plot_categories [] = Inr ml"
  obtains v0 v1 v2 v3 v4 where
    "ml = [(''profile'', v0), (''time_series'', v1), (''map'', v2), (''ts_diagram'', v3),
           (''3d_scatter'', v4)]"
    "probability predictions 0 = Inr v0" "probability predictions 1 = Inr v1"
    "probability predictions 2 = Inr v2" "probability predictions 3 = Inr v3"
    "probability predictions 4 = Inr v4"
  using assms
  by (auto simp: plot_categories_def numeral_eq_Suc split: sum.splits)

lemma rules_keep_unit_scores:
  "unit_rule_scores r \<Longrightarrow> unit_rule_scores (profile_rule p r)"
  "unit_rule_scores r \<Longrightarrow> unit_rule_scores (time_series_rule p r)"
  "unit_rule_scores r \<Longrightarrow> unit_rule_scores (map_rule p r)"
  "unit_rule_scores r \<Longrightarrow> unit_rule_scores (ts_diagram_rule p r)"
  "unit_rule_scores r \<Longrightarrow> unit_rule_scores (scatter_rule p r)"
  "unit_rule_scores r \<Longrightarrow> unit_rule_scores (ocean_rule p r)"
  by (simp_all add: unit_rule_scores_def profile_rule_def time_series_rule_def map_rule_def
      ts_diagram_rule_def scatter_rule_def ocean_rule_def le_max_iff_disj)

lemma intelligent_scores_unit: "unit_rule_scores (intelligent_scores p)"
  unfolding intelligent_scores_def
  by (intro rules_keep_unit_scores) (simp add: unit_rule_scores_def no_rule_scores_def)

lemma blended_scores_values:
  assumes "blended_scores predictions prompt = Inr B"
    and "\<forall>row \<in> set predictions. \<forall>x \<in> set row. 0 \<le> x \<and> x \<le> 1"
  shows "\<forall>v \<in> snd ` set B. 0 \<le> v \<and> v \<le> 1"
proof -
  from assms(1) obtain ml where
    ml: "ml_scores predictions 0 plot_categories [] = Inr ml" and
    B: "B = combine_scores (intelligent_scores (lower prompt)) ml"
    by (rule blended_scores_explicit)
  from ml obtain v0 v1 v2 v3 v4 where
    mll: "ml = [(''profile'', v0), (''time_series'', v1), (''map'', v2), (''ts_diagram'', v3),
           (''3d_scatter'', v4)]" and
    p: "probability predictions 0 = Inr v0" "probability predictions 1 = Inr v1"
       "probability predictions 2 = Inr v2" "probability predictions 3 = Inr v3"
       "probability predictions 4 = Inr v4"
    by (rule ml_scores_explicit)
  note b = p [THEN probability_bounds [OF _ assms(2)]]
  have u: "unit_rule_scores (intelligent_scores (lower prompt))"
    by (rule intelligent_scores_unit)
  from u b show ?thesis
    unfolding B combine_scores_explicit mll unit_rule_scores_def
    by (simp add: dict_get_def le_max_iff_disj)
qed

lemma dict_set_unit:
  assumes "\<forall>v \<in> snd ` set d. 0 \<le> v \<and> v \<le> (1::real)" and "0 \<le> w" and "w \<le> 1"
  shows "\<forall>v \<in> snd ` set (dict_set d k w). 0 \<le> v \<and> v \<le> 1"
proof
  fix v
  assume "v \<in> snd ` set (dict_set d k w)"
  with dict_set_values [of d k w] have "v = w \<or> v \<in> snd ` set d"
    by (meson insertE subsetD)
  then show "0 \<le> v \<and> v \<le> 1"
  proof
    assume "v = w"
    with assms(2,3) show ?thesis by simp
  next
    assume "v \<in> snd ` set d"
    with assms(1) show ?thesis by (rule bspec)
  qed
qed

lemma apply_floor_values:
  assumes "\<forall>v \<in> snd ` set E. 0 \<le> v \<and> v \<le> (1::real)"
  shows "\<forall>v \<in> snd ` set (apply_floor E m). 0 \<le> v \<and> v \<le> 1"
proof (cases "m < 0.4")
  case False
  with assms show ?thesis by (simp add: apply_floor_def)
next
  case True
  have "\<forall>v \<in> snd ` set (dict_set (dict_set (dict_set E ''3d_scatter'' 0.8) ''profile'' 0.7)
            ''map'' 0.6). 0 \<le> v \<and> v \<le> 1"
    by (intro dict_set_unit assms) simp_all
  with True show ?thesis
    by (simp only: apply_floor_def if_True)
qed

lemma select_plots_values:
  assumes run: "select_plots E thr = Inr (c, E')"
    and unit: "\<forall>v \<in> snd ` set E. 0 \<le> v \<and> v \<le> (1::real)"
  shows "\<forall>v \<in> snd ` set E'. 0 \<le> v \<and> v \<le> 1"
proof -
  let ?step = "if length (above_threshold E thr) < 2
          then add_complementary (take 3 (sorted_by_score E)) (above_threshold E thr) E
          else Inr (above_threshold E thr, E)"
  obtain c2 E2 where step: "?step = Inr (c2, E2)"
  proof (cases ?step)
    case (Inl e)
    then have "select_plots E thr = Inl e"
      unfolding select_plots_def Let_def by (simp only: sum.case)
    with run show ?thesis by simp
  next
    case (Inr pair)
    with that show ?thesis by (cases pair) simp
  qed
  have unit2: "\<forall>v \<in> snd ` set E2. 0 \<le> v \<and> v \<le> 1"
  proof (cases "length (above_threshold E thr) < 2")
    case True
    with step have "add_complementary (take 3 (sorted_by_score E)) (above_threshold E thr) E
        = Inr (c2, E2)"
      by (simp only: if_True)
    from add_complementary_values [OF this unit] show ?thesis .
  next
    case False
    with step unit show ?thesis by simp
  qed
  have forced: "\<forall>v \<in> snd ` set (dict_set (dict_set E2 ''3d_scatter'' 0.8) ''profile'' 0.7).
      0 \<le> v \<and> v \<le> 1"
    by (intro dict_set_unit unit2) simp_all
  from select_plots_scores [OF run step] unit2 forced show ?thesis
    by (cases "c2 = []") simp_all
qed

text \<open>
  Claim C9, as the code has it. For every prompt, every threshold and every behaviour of
  the classifier, the returned scores have exactly the five labels profile, time_series,
  map, ts_diagram and 3d_scatter, also when the fallback classification is returned;
  there is no entry for cross_section. When the probabilities of the classifier lie
  between 0 and 1, so does every returned score.
\<close>

theorem score_set_labels:
  "set (map fst (snd (classify_prompt predict_proba prompt threshold))) = set plot_categories
   \<and> length (snd (classify_prompt predict_proba prompt threshold)) = 5
   \<and> map_of (snd (classify_prompt predict_proba prompt threshold)) ''cross_section'' = None
   \<and> ((\<forall>predictions. predict_proba prompt = Inr predictions \<longrightarrow>
          (\<forall>row \<in> set predictions. \<forall>x \<in> set row. 0 \<le> x \<and> x \<le> 1))
        \<longrightarrow> (\<forall>v \<in> snd ` set (snd (classify_prompt predict_proba prompt threshold)).
               0 \<le> v \<and> v \<le> 1))"
proof -
  let ?S = "snd (classify_prompt predict_proba prompt threshold)"
  have fallback: "set (map fst (snd fallback_classification)) = set plot_categories
      \<and> length (snd fallback_classification) = 5
      \<and> map_of (snd fallback_classification) ''cross_section'' = None
      \<and> (\<forall>v \<in> snd ` set (snd fallback_classification). 0 \<le> v \<and> v \<le> 1)"
    by (auto simp: fallback_classification_def plot_categories_def)
  have labels: "set (map fst S) = set plot_categories \<and> length S = 5
      \<and> map_of S ''cross_section'' = None"
    if "map fst S = plot_categories" for S :: scores
  proof -
    have "length S = length (map fst S)" by simp
    also from that have "\<dots> = 5" by (simp add: plot_categories_def)
    finally have "length S = 5" .
    moreover from that have "''cross_section'' \<notin> fst ` set S"
      by (simp add: plot_categories_def flip: set_map)
    ultimately show ?thesis using that by (simp add: map_of_eq_None_iff)
  qed
  show ?thesis
  proof (cases "predict_proba prompt")
    case (Inl e)
    with fallback show ?thesis by (simp add: classify_prompt_def)
  next
    case (Inr predictions)
    show ?thesis
    proof (cases "floored_scores predictions prompt")
      case (Inl e)
      with Inr fallback show ?thesis by (simp add: classify_prompt_def)
    next
      case floored: (Inr E)
      from select_plots_shape [OF floored_scores_keys [OF floored], of threshold]
      obtain E' where run: "select_plots E threshold = Inr (selection_of E threshold, E')"
        and keys: "map fst E' = plot_categories"
        by blast
      from Inr floored run have S: "?S = E'"
        by (simp add: classify_prompt_def)
      have vals: "\<forall>v \<in> snd ` set E'. 0 \<le> v \<and> v \<le> 1"
        if unit: "\<forall>row \<in> set predictions. \<forall>x \<in> set row. 0 \<le> x \<and> x \<le> 1"
      proof -
        from floored obtain B m where B: "blended_scores predictions prompt = Inr B"
          and E: "E = apply_floor B m"
          by (auto simp: floored_scores_def split: sum.splits)
        from blended_scores_values [OF B unit] have "\<forall>v \<in> snd ` set E. 0 \<le> v \<and> v \<le> 1"
          unfolding E by (rule apply_floor_values)
        with run show ?thesis by (rule select_plots_values)
      qed
      from labels [OF keys] vals Inr show ?thesis
        unfolding S by simp
    qed
  qed
qed

text \<open>The prompt \<^verbatim>\<open>salinity map\<close> at even odds.\<close>

theorem score_set_labels_witness:
  "even_odds ''salinity map'' = Inr [[0.5, 0.5]]
   \<and> list_all (list_all (\<lambda>x. 0 \<le> x \<and> x \<le> 1)) [[0.5, 0.5 :: real]]
   \<and> snd (classify_prompt even_odds ''salinity map'' 0.3)
       = [(''profile'', 0.8), (''time_series'', 0.08), (''map'', 0.9), (''ts_diagram'', 0.9),
          (''3d_scatter'', 0.6)]
   \<and> list_all (\<lambda>(label, v). 0 \<le> v \<and> v \<le> 1)
        (snd (classify_prompt even_odds ''salinity map'' 0.3))"
proof -
  have h: "\<forall>predictions. even_odds ''salinity map'' = Inr predictions \<longrightarrow>
      (\<forall>row \<in> set predictions. \<forall>x \<in> set row. 0 \<le> x \<and> x \<le> 1)"
    by (simp add: even_odds_def)
  have e: "snd (classify_prompt even_odds ''salinity map'' 0.3)
       = [(''profile'', 0.8), (''time_series'', 0.08), (''map'', 0.9), (''ts_diagram'', 0.9),
          (''3d_scatter'', 0.6)]"
    by code_simp
  from score_set_labels [of even_odds "''salinity map''" "0.3"] h
  have "\<forall>v \<in> snd ` set (snd (classify_prompt even_odds ''salinity map'' 0.3)). 0 \<le> v \<and> v \<le> 1"
    by blast
  then have "list_all (\<lambda>(label, v). 0 \<le> v \<and> v \<le> 1)
        (snd (classify_prompt even_odds ''salinity map'' 0.3))"
    by (auto simp: list_all_iff intro: rev_image_eqI)
  with e show ?thesis by (simp add: even_odds_def)
qed

text \<open>
  A prompt that asks for a cross section: the returned scores have the five labels, and
  none for cross_section.
\<close>

theorem no_cross_section_counterexample:
  "map fst (snd (classify_prompt even_odds ''cross section of the transect'' 0.3))
     = [''profile'', ''time_series'', ''map'', ''ts_diagram'', ''3d_scatter'']
   \<and> map_of (snd (classify_prompt even_odds ''cross section of the transect'' 0.3))
        ''cross_section'' = None"
  by code_simp

end
